theory Spec2Isabelle
  imports Complex_Main
begin

section \<open>JavaScript values of control.js\<close>

text \<open>
  The control module of Interstellar Armada (src/control.js) reads the keyboard state,
  drives a camera and computes thruster burns for the manual (FighterController) and the
  autonomous (AIController) pilot. JavaScript numbers are idealised as reals; vectors and
  the 4x4 homogeneous matrices of the game are JavaScript arrays, here lists of reals read
  with \<open>!\<close> at the indices the source uses (a matrix holds its translation in the
  elements 12, 13 and 14). Where JavaScript divides by zero it goes on with NaN or an
  infinity, while a real quotient by zero is 0. The concrete states below take no quotient
  by zero, and the lengths that the normalizations divide by are listed for both pilots.
\<close>

type_synonym vec = "real list"
type_synonym mat4 = "real list"
type_synonym mat3 = "real list"

text \<open>
  A one-character JavaScript string is its UTF-16 code unit; \<open>String.fromCharCode\<close>
  keeps the low 16 bits of its argument.
\<close>

definition fromCharCode :: "nat \<Rightarrow> nat" where
  "fromCharCode n = n mod 65536"

text \<open>The fields of a keypress event that getChar reads; \<open>which = None\<close> is null.\<close>

record keyEvent =
  which :: "nat option"
  keyCode :: nat
  charCode :: nat

text \<open>control.js lines 23-30; the result None is JavaScript's null (a special key).\<close>

definition getChar :: "keyEvent \<Rightarrow> nat option" where
  "getChar event =
     (case which event of
        None \<Rightarrow> Some (fromCharCode (keyCode event))
      | Some w \<Rightarrow>
          (if w \<noteq> 0 \<and> charCode event \<noteq> 0 then Some (fromCharCode w) else None))"

text \<open>
  \<open>Array.prototype.splice(start, deleteCount)\<close> for a start that is not negative: the
  elements from start on, deleteCount of them at most, are removed; a start at or past the
  end removes nothing.
\<close>

definition array_splice :: "nat \<Rightarrow> nat \<Rightarrow> 'a list \<Rightarrow> 'a list" where
  "array_splice start deleteCount xs = take start xs @ drop (start + deleteCount) xs"

text \<open>
  JavaScript's remainder \<open>a % n\<close> on integers takes the sign of the dividend (it
  truncates), and is NaN for \<open>n = 0\<close>. activeCameraIndex is such a number.
\<close>

datatype js_index = Idx int | NaN

definition js_rem :: "int \<Rightarrow> int \<Rightarrow> js_index" where
  "js_rem a n = (if n = 0 then NaN else Idx (sgn a * (\<bar>a\<bar> mod \<bar>n\<bar>)))"

section \<open>The vector and matrix library\<close>

text \<open>
  The vector and matrix functions that control.js calls (nullMatrix4,
  translationDistance2, normalizeVector, normalizeVector2D, vectorDotProduct, crossProduct,
  mul, matrix3from4, matrix4from3, vector3Matrix3Product, matrix3Vector3Product,
  transposed3, inverse3, translationMatrix, rotationMatrix4, angleDifferenceOfUnitVectors,
  angleDifferenceOfUnitVectors2D) are not under src/. The spec speaks of the magnitude of a
  vector, of normalized vectors, of composing transforms and of the angle between unit
  vectors; each definition of this section is that operation on row-major arrays.
\<close>

text \<open>Modelled from the spec: nullMatrix4 is not under src/; the matrix of zeros.\<close>

definition nullMatrix4 :: mat4 where
  "nullMatrix4 = [0, 0, 0, 0,  0, 0, 0, 0,  0, 0, 0, 0,  0, 0, 0, 0]"

text \<open>The identity, for the concrete states below.\<close>

definition identityMatrix4 :: mat4 where
  "identityMatrix4 = [1, 0, 0, 0,  0, 1, 0, 0,  0, 0, 1, 0,  0, 0, 0, 1]"

text \<open>
  Modelled from the spec: translationMatrix is not under src/; the transform that moves by
  (x, y, z), which the source reads back at the indices 12, 13 and 14.
\<close>

definition translationMatrix :: "real \<Rightarrow> real \<Rightarrow> real \<Rightarrow> mat4" where
  "translationMatrix x y z = [1, 0, 0, 0,  0, 1, 0, 0,  0, 0, 1, 0,  x, y, z, 1]"

text \<open>
  Modelled from the spec: translationDistance2 is not under src/; the squared distance
  between the translations of two transforms (the source takes its square root as the
  speed and as the distance to the goal).
\<close>

definition translationDistance2 :: "mat4 \<Rightarrow> mat4 \<Rightarrow> real" where
  "translationDistance2 a b =
     (a ! 12 - b ! 12) * (a ! 12 - b ! 12) +
     (a ! 13 - b ! 13) * (a ! 13 - b ! 13) +
     (a ! 14 - b ! 14) * (a ! 14 - b ! 14)"

text \<open>
  Modelled from the spec: normalizeVector and normalizeVector2D are not under src/; a
  vector is normalized by dividing its components by its length (the spec has the zero
  vector in place of the normalized velocity at speed zero, to avoid the division by zero).
\<close>

definition vectorLength :: "vec \<Rightarrow> real" where
  "vectorLength v = sqrt (v ! 0 * v ! 0 + v ! 1 * v ! 1 + v ! 2 * v ! 2)"

definition vectorLength2D :: "vec \<Rightarrow> real" where
  "vectorLength2D v = sqrt (v ! 0 * v ! 0 + v ! 1 * v ! 1)"

definition normalizeVector :: "vec \<Rightarrow> vec" where
  "normalizeVector v =
     [v ! 0 / vectorLength v, v ! 1 / vectorLength v, v ! 2 / vectorLength v]"

definition normalizeVector2D :: "vec \<Rightarrow> vec" where
  "normalizeVector2D v = [v ! 0 / vectorLength2D v, v ! 1 / vectorLength2D v]"

text \<open>
  Modelled from the spec: vectorDotProduct and crossProduct are not under src/; the dot
  and the cross product of two vectors of three components.
\<close>

definition vectorDotProduct :: "vec \<Rightarrow> vec \<Rightarrow> real" where
  "vectorDotProduct a b = a ! 0 * b ! 0 + a ! 1 * b ! 1 + a ! 2 * b ! 2"

definition crossProduct :: "vec \<Rightarrow> vec \<Rightarrow> vec" where
  "crossProduct a b =
     [a ! 1 * b ! 2 - a ! 2 * b ! 1,
      a ! 2 * b ! 0 - a ! 0 * b ! 2,
      a ! 0 * b ! 1 - a ! 1 * b ! 0]"

text \<open>
  Modelled from the spec: angleDifferenceOfUnitVectors and angleDifferenceOfUnitVectors2D
  are not under src/; the angle between two unit vectors, the arc cosine of their dot
  product.
\<close>

definition angleDifferenceOfUnitVectors :: "vec \<Rightarrow> vec \<Rightarrow> real" where
  "angleDifferenceOfUnitVectors a b = arccos (vectorDotProduct a b)"

definition angleDifferenceOfUnitVectors2D :: "vec \<Rightarrow> vec \<Rightarrow> real" where
  "angleDifferenceOfUnitVectors2D a b = arccos (a ! 0 * b ! 0 + a ! 1 * b ! 1)"

text \<open>
  Modelled from the spec: mul is not under src/; the product of two 4x4 matrices, which
  composes the transforms.
\<close>

definition mul :: "mat4 \<Rightarrow> mat4 \<Rightarrow> mat4" where
  "mul a b =
     [a ! 0 * b ! 0 + a ! 1 * b ! 4 + a ! 2 * b ! 8 + a ! 3 * b ! 12,
      a ! 0 * b ! 1 + a ! 1 * b ! 5 + a ! 2 * b ! 9 + a ! 3 * b ! 13,
      a ! 0 * b ! 2 + a ! 1 * b ! 6 + a ! 2 * b ! 10 + a ! 3 * b ! 14,
      a ! 0 * b ! 3 + a ! 1 * b ! 7 + a ! 2 * b ! 11 + a ! 3 * b ! 15,
      a ! 4 * b ! 0 + a ! 5 * b ! 4 + a ! 6 * b ! 8 + a ! 7 * b ! 12,
      a ! 4 * b ! 1 + a ! 5 * b ! 5 + a ! 6 * b ! 9 + a ! 7 * b ! 13,
      a ! 4 * b ! 2 + a ! 5 * b ! 6 + a ! 6 * b ! 10 + a ! 7 * b ! 14,
      a ! 4 * b ! 3 + a ! 5 * b ! 7 + a ! 6 * b ! 11 + a ! 7 * b ! 15,
      a ! 8 * b ! 0 + a ! 9 * b ! 4 + a ! 10 * b ! 8 + a ! 11 * b ! 12,
      a ! 8 * b ! 1 + a ! 9 * b ! 5 + a ! 10 * b ! 9 + a ! 11 * b ! 13,
      a ! 8 * b ! 2 + a ! 9 * b ! 6 + a ! 10 * b ! 10 + a ! 11 * b ! 14,
      a ! 8 * b ! 3 + a ! 9 * b ! 7 + a ! 10 * b ! 11 + a ! 11 * b ! 15,
      a ! 12 * b ! 0 + a ! 13 * b ! 4 + a ! 14 * b ! 8 + a ! 15 * b ! 12,
      a ! 12 * b ! 1 + a ! 13 * b ! 5 + a ! 14 * b ! 9 + a ! 15 * b ! 13,
      a ! 12 * b ! 2 + a ! 13 * b ! 6 + a ! 14 * b ! 10 + a ! 15 * b ! 14,
      a ! 12 * b ! 3 + a ! 13 * b ! 7 + a ! 14 * b ! 11 + a ! 15 * b ! 15]"

text \<open>
  Modelled from the spec: matrix3from4, matrix4from3, transposed3 and inverse3 are not
  under src/; the upper left 3x3 block of a 4x4 matrix, the 4x4 matrix of a 3x3 block, the
  transpose and the inverse (the adjugate over the determinant) of a 3x3 matrix.
\<close>

definition matrix3from4 :: "mat4 \<Rightarrow> mat3" where
  "matrix3from4 m = [m ! 0, m ! 1, m ! 2,  m ! 4, m ! 5, m ! 6,  m ! 8, m ! 9, m ! 10]"

definition matrix4from3 :: "mat3 \<Rightarrow> mat4" where
  "matrix4from3 m =
     [m ! 0, m ! 1, m ! 2, 0,  m ! 3, m ! 4, m ! 5, 0,  m ! 6, m ! 7, m ! 8, 0,  0, 0, 0, 1]"

definition transposed3 :: "mat3 \<Rightarrow> mat3" where
  "transposed3 m = [m ! 0, m ! 3, m ! 6,  m ! 1, m ! 4, m ! 7,  m ! 2, m ! 5, m ! 8]"

definition determinant3 :: "mat3 \<Rightarrow> real" where
  "determinant3 m =
     m ! 0 * (m ! 4 * m ! 8 - m ! 5 * m ! 7) -
     m ! 1 * (m ! 3 * m ! 8 - m ! 5 * m ! 6) +
     m ! 2 * (m ! 3 * m ! 7 - m ! 4 * m ! 6)"

definition inverse3 :: "mat3 \<Rightarrow> mat3" where
  "inverse3 m =
     (let d = determinant3 m in
      [(m ! 4 * m ! 8 - m ! 5 * m ! 7) / d,
       (m ! 2 * m ! 7 - m ! 1 * m ! 8) / d,
       (m ! 1 * m ! 5 - m ! 2 * m ! 4) / d,
       (m ! 5 * m ! 6 - m ! 3 * m ! 8) / d,
       (m ! 0 * m ! 8 - m ! 2 * m ! 6) / d,
       (m ! 2 * m ! 3 - m ! 0 * m ! 5) / d,
       (m ! 3 * m ! 7 - m ! 4 * m ! 6) / d,
       (m ! 1 * m ! 6 - m ! 0 * m ! 7) / d,
       (m ! 0 * m ! 4 - m ! 1 * m ! 3) / d])"

text \<open>
  Modelled from the spec: vector3Matrix3Product and matrix3Vector3Product are not under
  src/; a row vector times a 3x3 matrix, and a 3x3 matrix times a column vector (the
  vector is the first argument of both).
\<close>

definition vector3Matrix3Product :: "vec \<Rightarrow> mat3 \<Rightarrow> vec" where
  "vector3Matrix3Product v m =
     [v ! 0 * m ! 0 + v ! 1 * m ! 3 + v ! 2 * m ! 6,
      v ! 0 * m ! 1 + v ! 1 * m ! 4 + v ! 2 * m ! 7,
      v ! 0 * m ! 2 + v ! 1 * m ! 5 + v ! 2 * m ! 8]"

definition matrix3Vector3Product :: "vec \<Rightarrow> mat3 \<Rightarrow> vec" where
  "matrix3Vector3Product v m =
     [m ! 0 * v ! 0 + m ! 1 * v ! 1 + m ! 2 * v ! 2,
      m ! 3 * v ! 0 + m ! 4 * v ! 1 + m ! 5 * v ! 2,
      m ! 6 * v ! 0 + m ! 7 * v ! 1 + m ! 8 * v ! 2]"

text \<open>
  Modelled from the spec: rotationMatrix4 is not under src/; the rotation by the angle
  \<open>a\<close> about the unit axis \<open>u\<close> (Rodrigues' formula).
\<close>

definition rotationMatrix4 :: "vec \<Rightarrow> real \<Rightarrow> mat4" where
  "rotationMatrix4 u a =
     (let c = cos a; s = sin a; t = 1 - cos a; x = u ! 0; y = u ! 1; z = u ! 2 in
      [t * x * x + c,     t * x * y - s * z, t * x * z + s * y, 0,
       t * x * y + s * z, t * y * y + c,     t * y * z - s * x, 0,
       t * x * z - s * y, t * y * z + s * x, t * z * z + c,     0,
       0, 0, 0, 1])"

section \<open>The controlled entity\<close>

text \<open>
  The physical model, the propulsion class and the thruster interface of a spacecraft
  belong to the game logic, which is not under src/. A controller reads the fields below
  and commands the thrusters through method calls; the model records the calls of one
  control invocation in program order. \<open>getNeededBurnForAcc\<close> and
  \<open>getNeededBurnForAngularAcc\<close> are methods of the spacecraft too: the model keeps
  the call with its argument.
\<close>

record physicalModel =
  position :: mat4
  orientation :: mat4
  velocity :: mat4
  angularVelocity :: mat4
  mass :: real
  modelMatrixInverse :: mat4

record propulsionClass =
  thrust :: real
  angularThrust :: real

datatype neededBurn =
  NeededBurnForAcc real
| NeededBurnForAngularAcc real

datatype command =
  Fire
| ResetThrusterBurn
| AddThrusterBurn string real
| AddThrusterBurnCapped string real neededBurn
| AddDirectionalThrusterBurn vec real

text \<open>control.js lines 242-244.\<close>

datatype goal = Goal mat4

fun goal_position :: "goal \<Rightarrow> mat4" where
  "goal_position (Goal p) = p"

text \<open>The state of the two pilots (control.js lines 49-62 and 246-251).\<close>

definition FM_INERTIAL :: nat where
  "FM_INERTIAL = 0"

definition FM_COMPENSATED :: nat where
  "FM_COMPENSATED = 1"

definition NUM_FLIGHTMODES :: nat where
  "NUM_FLIGHTMODES = 2"

definition TURNING_LIMIT :: real where
  "TURNING_LIMIT = 0.1"

datatype controller =
  FighterController nat real
| AIController "goal list"

record subnode =
  filename :: string
  visible :: bool

record spacecraft =
  physicalModel :: physicalModel
  propulsion :: propulsionClass
  controller :: controller
  subnodes :: "subnode list"

section \<open>The physical state view\<close>

text \<open>
  Both pilots start from the same derived quantities (control.js lines 74-92 and
  259-278): the speed, the unit velocity vector (the zero vector at speed zero), the
  velocity in the craft's frame and the turning matrix.
\<close>

definition speed2 :: "physicalModel \<Rightarrow> real" where
  "speed2 pm = translationDistance2 (velocity pm) nullMatrix4"

definition speed :: "physicalModel \<Rightarrow> real" where
  "speed pm = sqrt (speed2 pm)"

definition velocityVector :: "physicalModel \<Rightarrow> vec" where
  "velocityVector pm =
     (if speed pm > 0
      then normalizeVector [velocity pm ! 12, velocity pm ! 13, velocity pm ! 14]
      else [0, 0, 0])"

definition relativeVelocity :: "physicalModel \<Rightarrow> mat4" where
  "relativeVelocity pm =
     mul (velocity pm) (matrix4from3 (matrix3from4 (modelMatrixInverse pm)))"

definition turningMatrix :: "physicalModel \<Rightarrow> mat4" where
  "turningMatrix pm =
     mul (mul (orientation pm) (angularVelocity pm))
         (matrix4from3 (matrix3from4 (modelMatrixInverse pm)))"

section \<open>FighterController.prototype.control\<close>

text \<open>
  control.js lines 94-101: the loop over the shared queue of keypress events. An event
  whose character is 'o' switches the flight mode and is spliced out, after which
  \<open>i -= 1\<close> and the loop's \<open>i++\<close> leave the index where it is; any other event is
  stepped over.
\<close>

function FighterController_keyPressEvents ::
  "nat \<Rightarrow> keyEvent list \<Rightarrow> nat \<Rightarrow> keyEvent list \<times> nat" where
  "FighterController_keyPressEvents i keyPressEvents flightMode =
     (if i < length keyPressEvents then
        (if getChar (keyPressEvents ! i) = Some (of_char CHR ''o'') then
           FighterController_keyPressEvents i (array_splice i 1 keyPressEvents)
             ((flightMode + 1) mod NUM_FLIGHTMODES)
         else FighterController_keyPressEvents (i + 1) keyPressEvents flightMode)
      else (keyPressEvents, flightMode))"
  by pat_completeness auto
termination
  by (relation "measure (\<lambda>(i, q, m). length q - i)") (auto simp: array_splice_def)

text \<open>Lines 103-132: the keys W, S and backspace. Each returns its burns and the intended speed.\<close>

definition FighterController_keyW ::
  "(nat \<Rightarrow> bool) \<Rightarrow> nat \<Rightarrow> real \<Rightarrow> spacecraft \<Rightarrow> command list \<times> real" where
  "FighterController_keyW currentlyPressedKeys flightMode intendedSpeed controlledEntity =
     (if currentlyPressedKeys 87 then
        (if flightMode = FM_INERTIAL then ([AddThrusterBurn ''forward'' 0.5], intendedSpeed)
         else if flightMode = FM_COMPENSATED then
           ([], intendedSpeed +
                thrust (propulsion controlledEntity) / mass (physicalModel controlledEntity))
         else ([], intendedSpeed))
      else ([], intendedSpeed))"

definition FighterController_keyS ::
  "(nat \<Rightarrow> bool) \<Rightarrow> nat \<Rightarrow> real \<Rightarrow> spacecraft \<Rightarrow> command list \<times> real" where
  "FighterController_keyS currentlyPressedKeys flightMode intendedSpeed controlledEntity =
     (if currentlyPressedKeys 83 then
        (if flightMode = FM_INERTIAL then ([AddThrusterBurn ''reverse'' 0.5], intendedSpeed)
         else if flightMode = FM_COMPENSATED then
           (let s = intendedSpeed -
                    thrust (propulsion controlledEntity) / mass (physicalModel controlledEntity)
            in ([], if s < 0 then 0 else s))
         else ([], intendedSpeed))
      else ([], intendedSpeed))"

definition FighterController_keyBackspace :: "(nat \<Rightarrow> bool) \<Rightarrow> nat \<Rightarrow> real \<Rightarrow> real" where
  "FighterController_keyBackspace currentlyPressedKeys flightMode intendedSpeed =
     (if currentlyPressedKeys 8 then
        (if flightMode = FM_COMPENSATED then 0 else intendedSpeed)
      else intendedSpeed)"

text \<open>Lines 133-149: the drift correction of the compensated flight mode.\<close>

definition FighterController_slide :: "mat4 \<Rightarrow> command list" where
  "FighterController_slide relVel =
     (if relVel ! 12 < - 0.0001 then
        [AddThrusterBurnCapped ''slideRight'' 0.5 (NeededBurnForAcc (- (relVel ! 12)))]
      else if relVel ! 12 > 0.0001 then
        [AddThrusterBurnCapped ''slideLeft'' 0.5 (NeededBurnForAcc (relVel ! 12))]
      else [])"

definition FighterController_raise :: "mat4 \<Rightarrow> command list" where
  "FighterController_raise relVel =
     (if relVel ! 14 < - 0.0001 then
        [AddThrusterBurnCapped ''raise'' 0.5 (NeededBurnForAcc (- (relVel ! 14)))]
      else if relVel ! 14 > 0.0001 then
        [AddThrusterBurnCapped ''lower'' 0.5 (NeededBurnForAcc (relVel ! 14))]
      else [])"

definition FighterController_cruise :: "real \<Rightarrow> mat4 \<Rightarrow> command list" where
  "FighterController_cruise intendedSpeed relVel =
     (if relVel ! 13 < intendedSpeed - 0.0001 then
        [AddThrusterBurnCapped ''forward'' 0.5 (NeededBurnForAcc (intendedSpeed - relVel ! 13))]
      else if relVel ! 13 > intendedSpeed + 0.0001 then
        [AddThrusterBurnCapped ''reverse'' 0.5 (NeededBurnForAcc (relVel ! 13 - intendedSpeed))]
      else [])"

definition FighterController_compensated :: "nat \<Rightarrow> real \<Rightarrow> mat4 \<Rightarrow> command list" where
  "FighterController_compensated flightMode intendedSpeed relVel =
     (if flightMode = FM_COMPENSATED then
        FighterController_slide relVel @ FighterController_raise relVel @
        FighterController_cruise intendedSpeed relVel
      else [])"

text \<open>Lines 150-239: yaw, pitch and roll, by the keys or damped.\<close>

definition FighterController_yaw :: "(nat \<Rightarrow> bool) \<Rightarrow> spacecraft \<Rightarrow> command list" where
  "FighterController_yaw currentlyPressedKeys controlledEntity =
     (let pm = physicalModel controlledEntity;
          angThrust = angularThrust (propulsion controlledEntity);
          tm = turningMatrix pm
      in
      if currentlyPressedKeys 37 then
        (if tm ! 4 > - TURNING_LIMIT then [AddThrusterBurn ''yawLeft'' 0.5] else [])
      else if currentlyPressedKeys 39 then
        (if tm ! 4 < TURNING_LIMIT then [AddThrusterBurn ''yawRight'' 0.5] else [])
      else if tm ! 4 < - 0.0001 then
        (let burn = min angThrust
               (angleDifferenceOfUnitVectors2D [0, 1] (normalizeVector2D [tm ! 4, tm ! 5]) *
                mass pm)
         in [AddThrusterBurn ''yawRight'' (0.5 * burn / angThrust)])
      else if tm ! 4 > 0.0001 then
        (let burn = min angThrust
               (angleDifferenceOfUnitVectors2D [0, 1] (normalizeVector2D [tm ! 4, tm ! 5]) *
                mass pm)
         in [AddThrusterBurn ''yawLeft'' (0.5 * burn / angThrust)])
      else [])"

definition FighterController_pitch :: "(nat \<Rightarrow> bool) \<Rightarrow> spacecraft \<Rightarrow> command list" where
  "FighterController_pitch currentlyPressedKeys controlledEntity =
     (let pm = physicalModel controlledEntity;
          angThrust = angularThrust (propulsion controlledEntity);
          tm = turningMatrix pm
      in
      if currentlyPressedKeys 38 then
        (if tm ! 6 > - TURNING_LIMIT then [AddThrusterBurn ''pitchDown'' 0.5] else [])
      else if currentlyPressedKeys 40 then
        (if tm ! 6 < TURNING_LIMIT then [AddThrusterBurn ''pitchUp'' 0.5] else [])
      else if tm ! 6 < - 0.0001 then
        (let burn = min angThrust
               (angleDifferenceOfUnitVectors2D [1, 0] (normalizeVector2D [tm ! 5, tm ! 6]) *
                mass pm)
         in [AddThrusterBurn ''pitchUp'' (0.5 * burn / angThrust)])
      else if tm ! 6 > 0.0001 then
        (let burn = min angThrust
               (angleDifferenceOfUnitVectors2D [1, 0] (normalizeVector2D [tm ! 5, tm ! 6]) *
                mass pm)
         in [AddThrusterBurn ''pitchDown'' (0.5 * burn / angThrust)])
      else [])"

definition FighterController_roll :: "(nat \<Rightarrow> bool) \<Rightarrow> spacecraft \<Rightarrow> command list" where
  "FighterController_roll currentlyPressedKeys controlledEntity =
     (let pm = physicalModel controlledEntity;
          angThrust = angularThrust (propulsion controlledEntity);
          tm = turningMatrix pm
      in
      if currentlyPressedKeys 34 then
        (if tm ! 2 > - TURNING_LIMIT then [AddThrusterBurn ''rollRight'' 0.5] else [])
      else if currentlyPressedKeys 33 then
        (if tm ! 2 < TURNING_LIMIT then [AddThrusterBurn ''rollLeft'' 0.5] else [])
      else if tm ! 2 < - 0.0001 then
        (let burn = min angThrust
               (angleDifferenceOfUnitVectors2D [1, 0] (normalizeVector2D [tm ! 0, tm ! 2]) *
                mass pm)
         in [AddThrusterBurn ''rollLeft'' (0.5 * burn / angThrust)])
      else if tm ! 2 > 0.0001 then
        (let burn = min angThrust
               (angleDifferenceOfUnitVectors2D [1, 0] (normalizeVector2D [tm ! 0, tm ! 2]) *
                mass pm)
         in [AddThrusterBurn ''rollRight'' (0.5 * burn / angThrust)])
      else [])"

text \<open>
  Lines 67-240. One invocation takes the held keys, the shared event queue, the pilot's
  flight mode and intended speed and the craft; it leaves the queue, the flight mode and
  the intended speed changed and has sent the craft the listed commands.
\<close>

record fighterResult =
  fr_keyPressEvents :: "keyEvent list"
  fr_flightMode :: nat
  fr_intendedSpeed :: real
  fr_commands :: "command list"

definition FighterController_control ::
  "(nat \<Rightarrow> bool) \<Rightarrow> keyEvent list \<Rightarrow> nat \<Rightarrow> real \<Rightarrow> spacecraft \<Rightarrow> fighterResult" where
  "FighterController_control currentlyPressedKeys keyPressEvents flightMode0 intendedSpeed0
       controlledEntity =
     (let fire = (if currentlyPressedKeys 70 then [Fire] else []);
          relVel = relativeVelocity (physicalModel controlledEntity);
          (events, flightMode) =
             FighterController_keyPressEvents 0 keyPressEvents flightMode0;
          (w, intendedSpeed1) =
             FighterController_keyW currentlyPressedKeys flightMode intendedSpeed0
               controlledEntity;
          (s, intendedSpeed2) =
             FighterController_keyS currentlyPressedKeys flightMode intendedSpeed1
               controlledEntity;
          intendedSpeed =
             FighterController_keyBackspace currentlyPressedKeys flightMode intendedSpeed2
      in \<lparr> fr_keyPressEvents = events,
           fr_flightMode = flightMode,
           fr_intendedSpeed = intendedSpeed,
           fr_commands =
             fire @ [ResetThrusterBurn] @ w @ s @
             FighterController_compensated flightMode intendedSpeed relVel @
             FighterController_yaw currentlyPressedKeys controlledEntity @
             FighterController_pitch currentlyPressedKeys controlledEntity @
             FighterController_roll currentlyPressedKeys controlledEntity \<rparr>)"

text \<open>
  The lengths that one invocation divides by inside normalizeVector and
  normalizeVector2D, in program order: line 78 (only at a speed above zero) and, where no
  key of the axis is held and the rate is outside the deadband, lines 165 or 175, 195 or
  205, and 225 or 235.
\<close>

definition FighterController_divisors :: "(nat \<Rightarrow> bool) \<Rightarrow> spacecraft \<Rightarrow> real list" where
  "FighterController_divisors currentlyPressedKeys controlledEntity =
     (let pm = physicalModel controlledEntity; tm = turningMatrix pm in
      (if speed pm > 0
       then [vectorLength [velocity pm ! 12, velocity pm ! 13, velocity pm ! 14]]
       else []) @
      (if \<not> currentlyPressedKeys 37 \<and> \<not> currentlyPressedKeys 39 \<and>
          (tm ! 4 < - 0.0001 \<or> tm ! 4 > 0.0001)
       then [vectorLength2D [tm ! 4, tm ! 5]] else []) @
      (if \<not> currentlyPressedKeys 38 \<and> \<not> currentlyPressedKeys 40 \<and>
          (tm ! 6 < - 0.0001 \<or> tm ! 6 > 0.0001)
       then [vectorLength2D [tm ! 5, tm ! 6]] else []) @
      (if \<not> currentlyPressedKeys 34 \<and> \<not> currentlyPressedKeys 33 \<and>
          (tm ! 2 < - 0.0001 \<or> tm ! 2 > 0.0001)
       then [vectorLength2D [tm ! 0, tm ! 2]] else []))"

section \<open>AIController.prototype.control\<close>

text \<open>Lines 261-264: the accelerations the craft can reach and its unit direction.\<close>

definition acc :: "spacecraft \<Rightarrow> real" where
  "acc controlledEntity =
     thrust (propulsion controlledEntity) / mass (physicalModel controlledEntity)"

definition turnAcc :: "spacecraft \<Rightarrow> real" where
  "turnAcc controlledEntity =
     angularThrust (propulsion controlledEntity) / mass (physicalModel controlledEntity)"

definition directionVector :: "physicalModel \<Rightarrow> vec" where
  "directionVector pm =
     normalizeVector [orientation pm ! 4, orientation pm ! 5, orientation pm ! 6]"

text \<open>Lines 285-299: the quantities that relate the craft to the goal at the head of the queue.\<close>

definition distance2 :: "physicalModel \<Rightarrow> goal \<Rightarrow> real" where
  "distance2 pm g = translationDistance2 (goal_position g) (position pm)"

definition distance :: "physicalModel \<Rightarrow> goal \<Rightarrow> real" where
  "distance pm g = sqrt (distance2 pm g)"

definition toGoal :: "physicalModel \<Rightarrow> goal \<Rightarrow> vec" where
  "toGoal pm g =
     normalizeVector
       [goal_position g ! 12 - position pm ! 12,
        goal_position g ! 13 - position pm ! 13,
        goal_position g ! 14 - position pm ! 14]"

definition speedTowardsGoal :: "physicalModel \<Rightarrow> goal \<Rightarrow> real" where
  "speedTowardsGoal pm g = vectorDotProduct (velocityVector pm) (toGoal pm g) * speed pm"

definition angleToDesiredDirection :: "physicalModel \<Rightarrow> goal \<Rightarrow> real" where
  "angleToDesiredDirection pm g =
     angleDifferenceOfUnitVectors (directionVector pm) (toGoal pm g)"

definition relativeToGoal :: "physicalModel \<Rightarrow> goal \<Rightarrow> vec" where
  "relativeToGoal pm g =
     vector3Matrix3Product (toGoal pm g) (matrix3from4 (modelMatrixInverse pm))"

text \<open>Lines 325-328, 352-355 and 400-401: angle errors and turning rates, axis by axis.\<close>

definition yawAngleDifference :: "physicalModel \<Rightarrow> goal \<Rightarrow> real" where
  "yawAngleDifference pm g =
     angleDifferenceOfUnitVectors2D [0, 1]
       (normalizeVector2D [relativeToGoal pm g ! 0, relativeToGoal pm g ! 1])"

definition yawAngularVelocity :: "physicalModel \<Rightarrow> real" where
  "yawAngularVelocity pm =
     angleDifferenceOfUnitVectors2D [0, 1]
       (normalizeVector2D [turningMatrix pm ! 4, turningMatrix pm ! 5])"

definition pitchAngleDifference :: "physicalModel \<Rightarrow> goal \<Rightarrow> real" where
  "pitchAngleDifference pm g =
     angleDifferenceOfUnitVectors2D [1, 0]
       (normalizeVector2D [relativeToGoal pm g ! 1, relativeToGoal pm g ! 2])"

definition pitchAngularVelocity :: "physicalModel \<Rightarrow> real" where
  "pitchAngularVelocity pm =
     angleDifferenceOfUnitVectors2D [1, 0]
       (normalizeVector2D [turningMatrix pm ! 5, turningMatrix pm ! 6])"

definition rollAngularVelocity :: "physicalModel \<Rightarrow> real" where
  "rollAngularVelocity pm =
     angleDifferenceOfUnitVectors2D [1, 0]
       (normalizeVector2D [turningMatrix pm ! 0, turningMatrix pm ! 2])"

text \<open>Lines 306-323: the burns along the line of flight.\<close>

definition AIController_longitudinal :: "spacecraft \<Rightarrow> goal \<Rightarrow> command list" where
  "AIController_longitudinal controlledEntity g =
     (let pm = physicalModel controlledEntity;
          maxThrust = thrust (propulsion controlledEntity);
          speedTowardsGoal2 = speedTowardsGoal pm g * speedTowardsGoal pm g
      in
      if speedTowardsGoal pm g < 0 then
        [AddDirectionalThrusterBurn (velocityVector pm) (- 0.5)]
      else if speed pm * 0.999 > speedTowardsGoal pm g then
        (let burn = - min (maxThrust * 0.25) ((speed pm - speedTowardsGoal pm g) / mass pm)
         in AddDirectionalThrusterBurn (velocityVector pm) (0.5 * burn / maxThrust) #
            (if 2 * distance pm g * acc controlledEntity > speedTowardsGoal2 \<and>
                angleToDesiredDirection pm g < 0.1
             then [AddThrusterBurn ''forward'' 0.375]
             else
               (let burn = - min (maxThrust * 0.75)
                                 ((speed pm - speedTowardsGoal pm g) / mass pm)
                in [AddDirectionalThrusterBurn (velocityVector pm)
                      (0.5 * burn / maxThrust)])))
      else
        (if speed2 pm > 2 * distance pm g * acc controlledEntity then
           [AddDirectionalThrusterBurn (velocityVector pm) (- 0.5)]
         else [AddThrusterBurn ''forward'' 0.5]))"

text \<open>Lines 330-350: turning towards the goal about the yaw axis.\<close>

definition AIController_yaw :: "spacecraft \<Rightarrow> goal \<Rightarrow> command list" where
  "AIController_yaw controlledEntity g =
     (let pm = physicalModel controlledEntity; tm = turningMatrix pm in
      if yawAngleDifference pm g > 0.01 \<or> \<bar>tm ! 4\<bar> > 0.0001 then
        (if relativeToGoal pm g ! 0 > 0.0001 then
           (if tm ! 4 < TURNING_LIMIT \<and>
               yawAngularVelocity pm * yawAngularVelocity pm <
                 2 * yawAngleDifference pm g * turnAcc controlledEntity
            then [AddThrusterBurn ''yawRight'' 0.5]
            else if tm ! 4 > 0.0001 then
              [AddThrusterBurnCapped ''yawLeft'' 0.5
                 (NeededBurnForAngularAcc (yawAngularVelocity pm))]
            else [])
         else if relativeToGoal pm g ! 0 < - 0.0001 then
           (if tm ! 4 > - TURNING_LIMIT \<and>
               yawAngularVelocity pm * yawAngularVelocity pm <
                 2 * yawAngleDifference pm g * turnAcc controlledEntity
            then [AddThrusterBurn ''yawLeft'' 0.5]
            else if tm ! 4 < - 0.0001 then
              [AddThrusterBurnCapped ''yawRight'' 0.5
                 (NeededBurnForAngularAcc (yawAngularVelocity pm))]
            else [])
         else [])
      else [])"

text \<open>Lines 357-377: turning towards the goal about the pitch axis.\<close>

definition AIController_pitch :: "spacecraft \<Rightarrow> goal \<Rightarrow> command list" where
  "AIController_pitch controlledEntity g =
     (let pm = physicalModel controlledEntity; tm = turningMatrix pm in
      if pitchAngleDifference pm g > 0.01 \<or> \<bar>tm ! 6\<bar> > 0.0001 then
        (if relativeToGoal pm g ! 2 > 0.0001 then
           (if tm ! 6 < TURNING_LIMIT \<and>
               pitchAngularVelocity pm * pitchAngularVelocity pm <
                 2 * pitchAngleDifference pm g * turnAcc controlledEntity
            then [AddThrusterBurn ''pitchUp'' 0.5]
            else if tm ! 6 > 0.0001 then
              [AddThrusterBurnCapped ''pitchDown'' 0.5
                 (NeededBurnForAngularAcc (pitchAngularVelocity pm))]
            else [])
         else if relativeToGoal pm g ! 2 < - 0.0001 then
           (if tm ! 6 > - TURNING_LIMIT \<and>
               yawAngularVelocity pm * yawAngularVelocity pm <
                 2 * yawAngleDifference pm g * turnAcc controlledEntity
            then [AddThrusterBurn ''pitchDown'' 0.5]
            else if tm ! 6 < - 0.0001 then
              [AddThrusterBurnCapped ''pitchUp'' 0.5
                 (NeededBurnForAngularAcc (pitchAngularVelocity pm))]
            else [])
         else [])
      else [])"

text \<open>Lines 380-397: no goal is left; the craft brakes and stops turning.\<close>

definition AIController_brake :: "spacecraft \<Rightarrow> command list" where
  "AIController_brake controlledEntity =
     (let pm = physicalModel controlledEntity;
          maxThrust = thrust (propulsion controlledEntity)
      in
      if speed pm > 0 then
        (let burn = - min maxThrust (speed pm * mass pm)
         in [AddDirectionalThrusterBurn (velocityVector pm) (0.5 * burn / maxThrust)])
      else [])"

definition AIController_stopYaw :: "spacecraft \<Rightarrow> command list" where
  "AIController_stopYaw controlledEntity =
     (let pm = physicalModel controlledEntity; tm = turningMatrix pm in
      if tm ! 4 > 0.0001 then
        [AddThrusterBurnCapped ''yawLeft'' 0.5
           (NeededBurnForAngularAcc (yawAngularVelocity pm))]
      else if tm ! 4 < - 0.0001 then
        [AddThrusterBurnCapped ''yawRight'' 0.5
           (NeededBurnForAngularAcc (yawAngularVelocity pm))]
      else [])"

definition AIController_stopPitch :: "spacecraft \<Rightarrow> command list" where
  "AIController_stopPitch controlledEntity =
     (let pm = physicalModel controlledEntity; tm = turningMatrix pm in
      if tm ! 6 > 0.0001 then
        [AddThrusterBurnCapped ''pitchDown'' 0.5
           (NeededBurnForAngularAcc (pitchAngularVelocity pm))]
      else if tm ! 6 < - 0.0001 then
        [AddThrusterBurnCapped ''pitchUp'' 0.5
           (NeededBurnForAngularAcc (pitchAngularVelocity pm))]
      else [])"

text \<open>Lines 400-407: the roll is damped whatever the goals are.\<close>

definition AIController_roll :: "spacecraft \<Rightarrow> command list" where
  "AIController_roll controlledEntity =
     (let pm = physicalModel controlledEntity; tm = turningMatrix pm in
      if tm ! 2 > 0.0001 then
        [AddThrusterBurnCapped ''rollRight'' 0.5
           (NeededBurnForAngularAcc (rollAngularVelocity pm))]
      else if tm ! 2 < - 0.0001 then
        [AddThrusterBurnCapped ''rollLeft'' 0.5
           (NeededBurnForAngularAcc (rollAngularVelocity pm))]
      else [])"

text \<open>
  Lines 256-408. One invocation takes the craft and the pilot's goal queue; it leaves the
  queue changed (\<open>goals.shift()\<close> removes the head) and has sent the craft the listed
  commands. The values of lines 266-271 (futureOrientation, futureDirectionVector,
  turningDirection, turningAngle, turningAxis) are computed and never read; they show in
  the divisors below only.
\<close>

record aiResult =
  ai_goals :: "goal list"
  ai_commands :: "command list"

definition AIController_control :: "spacecraft \<Rightarrow> goal list \<Rightarrow> aiResult" where
  "AIController_control controlledEntity goals =
     (case goals of
        g # rest \<Rightarrow>
          (if distance (physicalModel controlledEntity) g < 0.5 then
             \<lparr> ai_goals = rest,
               ai_commands = [ResetThrusterBurn] @ AIController_roll controlledEntity \<rparr>
           else
             \<lparr> ai_goals = goals,
               ai_commands =
                 [ResetThrusterBurn] @
                 AIController_longitudinal controlledEntity g @
                 AIController_yaw controlledEntity g @
                 AIController_pitch controlledEntity g @
                 AIController_roll controlledEntity \<rparr>)
      | [] \<Rightarrow>
          \<lparr> ai_goals = goals,
            ai_commands =
              [ResetThrusterBurn] @
              AIController_brake controlledEntity @
              AIController_stopYaw controlledEntity @
              AIController_stopPitch controlledEntity @
              AIController_roll controlledEntity \<rparr>)"

text \<open>
  The lengths that one invocation divides by inside normalizeVector and
  normalizeVector2D, in program order: lines 264, 265 (only at a speed above zero), 267,
  268 and 271 for every state; lines 287, 325, 327, 352 and 354 with a goal (the last four
  only when the goal is not reached); lines 384 and 391 without a goal; line 400 last.
\<close>

definition AIController_divisors :: "spacecraft \<Rightarrow> goal list \<Rightarrow> real list" where
  "AIController_divisors controlledEntity goals =
     (let pm = physicalModel controlledEntity;
          tm = turningMatrix pm;
          futureOrientation = mul (orientation pm) (angularVelocity pm);
          futureDirectionVector =
            normalizeVector
              [futureOrientation ! 4, futureOrientation ! 5, futureOrientation ! 6]
      in
      [vectorLength [orientation pm ! 4, orientation pm ! 5, orientation pm ! 6]] @
      (if speed pm > 0
       then [vectorLength [velocity pm ! 12, velocity pm ! 13, velocity pm ! 14]]
       else []) @
      [vectorLength [futureOrientation ! 4, futureOrientation ! 5, futureOrientation ! 6],
       vectorLength [angularVelocity pm ! 4, angularVelocity pm ! 5, angularVelocity pm ! 6],
       vectorLength (crossProduct futureDirectionVector (directionVector pm))] @
      (case goals of
         g # rest \<Rightarrow>
           [vectorLength
              [goal_position g ! 12 - position pm ! 12,
               goal_position g ! 13 - position pm ! 13,
               goal_position g ! 14 - position pm ! 14]] @
           (if distance pm g < 0.5 then []
            else
              [vectorLength2D [relativeToGoal pm g ! 0, relativeToGoal pm g ! 1],
               vectorLength2D [tm ! 4, tm ! 5],
               vectorLength2D [relativeToGoal pm g ! 1, relativeToGoal pm g ! 2],
               vectorLength2D [tm ! 5, tm ! 6]])
       | [] \<Rightarrow> [vectorLength2D [tm ! 4, tm ! 5], vectorLength2D [tm ! 5, tm ! 6]]) @
      [vectorLength2D [tm ! 0, tm ! 2]])"

section \<open>controlCamera\<close>

text \<open>
  The camera belongs to the scene graph, which is not under src/; the record holds the
  fields that control.js reads and writes. The followed object answers getOrientation()
  and getPosition(). followedCamera is the camera of resourceCenter.cameras that the
  scene's camera follows, by its index there (None is undefined).
\<close>

record followedObject =
  getOrientation :: mat4
  getPosition :: mat4

record camera =
  cam_position :: mat4
  cam_orientation :: mat4
  cam_velocity :: vec
  cam_angularVelocity :: vec
  maxSpeed :: real
  acceleration :: real
  maxTurn :: real
  angularAcceleration :: real
  fov :: real
  controllableDirection :: bool
  controllablePosition :: bool
  followedObject :: "followedObject option"
  followPosition :: mat4
  followOrientation :: mat4
  followedCamera :: "nat option"
  matrix :: mat4

text \<open>
  Lines 412-455 and 458-523 repeat one pattern for each of the five rates: the first key of
  a pair speeds the rate up below the limit and its release lets a positive rate decay,
  then the second key does the same downwards on the rate so changed.
\<close>

definition controlCamera_rate :: "bool \<Rightarrow> bool \<Rightarrow> real \<Rightarrow> real \<Rightarrow> real \<Rightarrow> real" where
  "controlCamera_rate keyUp keyDown limit step v0 =
     (let v1 = (if keyUp then (if v0 < limit then v0 + step else v0)
                else (if v0 > 0 then v0 - min step v0 else v0))
      in
      if keyDown then (if v1 > - limit then v1 - step else v1)
      else (if v1 < 0 then v1 + min step (- v1) else v1))"

text \<open>Lines 411-456: the turning rates, about the axis 1 first.\<close>

definition controlCamera_direction :: "(nat \<Rightarrow> bool) \<Rightarrow> camera \<Rightarrow> vec" where
  "controlCamera_direction currentlyPressedKeys camera =
     (if controllableDirection camera then
        (let a1 = (cam_angularVelocity camera)
                    [1 := controlCamera_rate
                       (currentlyPressedKeys 17 \<and> currentlyPressedKeys 37)
                       (currentlyPressedKeys 17 \<and> currentlyPressedKeys 39)
                       (maxTurn camera) (angularAcceleration camera)
                       (cam_angularVelocity camera ! 1)]
         in a1 [0 := controlCamera_rate
                  (currentlyPressedKeys 17 \<and> currentlyPressedKeys 38)
                  (currentlyPressedKeys 17 \<and> currentlyPressedKeys 40)
                  (maxTurn camera) (angularAcceleration camera) (a1 ! 0)])
      else cam_angularVelocity camera)"

text \<open>Lines 457-524: the velocity, axis by axis.\<close>

definition controlCamera_velocity :: "(nat \<Rightarrow> bool) \<Rightarrow> camera \<Rightarrow> vec" where
  "controlCamera_velocity currentlyPressedKeys camera =
     (if controllablePosition camera then
        (let v0 = (cam_velocity camera)
                    [0 := controlCamera_rate (currentlyPressedKeys 37) (currentlyPressedKeys 39)
                       (maxSpeed camera) (acceleration camera) (cam_velocity camera ! 0)];
             v1 = v0 [1 := controlCamera_rate (currentlyPressedKeys 34) (currentlyPressedKeys 33)
                       (maxSpeed camera) (acceleration camera) (v0 ! 1)]
         in v1 [2 := controlCamera_rate (currentlyPressedKeys 38) (currentlyPressedKeys 40)
                  (maxSpeed camera) (acceleration camera) (v1 ! 2)])
      else cam_velocity camera)"

text \<open>
  Lines 526-566: a camera that follows no object moves by its velocity, turned into its
  own frame, and turns by its turning rates.
\<close>

definition controlCamera_free :: "camera \<Rightarrow> camera" where
  "controlCamera_free camera =
     (let inverseOrientation =
            transposed3 (inverse3 (matrix3from4 (cam_orientation camera)));
          translation = matrix3Vector3Product (cam_velocity camera) inverseOrientation
      in camera
           \<lparr> cam_position :=
               mul (cam_position camera)
                   (translationMatrix (translation ! 0) (translation ! 1) (translation ! 2)),
             cam_orientation :=
               mul (mul (cam_orientation camera)
                        (rotationMatrix4 [0, 1, 0] (cam_angularVelocity camera ! 1)))
                   (rotationMatrix4 [1, 0, 0] (cam_angularVelocity camera ! 0)) \<rparr>)"

text \<open>
  Lines 584-589. Modelled from the spec: setFOV is a method of the camera that is not
  under src/; it sets the field of view.
\<close>

definition controlCamera_fov :: "(nat \<Rightarrow> bool) \<Rightarrow> camera \<Rightarrow> camera" where
  "controlCamera_fov currentlyPressedKeys camera =
     (let c1 = (if currentlyPressedKeys 90 then camera \<lparr> fov := fov camera - 1 \<rparr> else camera)
      in if currentlyPressedKeys 85 then c1 \<lparr> fov := fov c1 + 1 \<rparr> else c1)"

text \<open>Lines 591-624: a camera that follows an object is placed from the object's transform.\<close>

definition controlCamera_follow :: "followedObject \<Rightarrow> camera \<Rightarrow> camera" where
  "controlCamera_follow followed camera =
     (let newOrientation =
            mul (mul (matrix4from3 (inverse3 (matrix3from4 (getOrientation followed))))
                     (rotationMatrix4 [1, 0, 0] (3.1415 / 2)))
                (followOrientation camera);
          camPosition =
            mul (mul (followPosition camera) (getOrientation followed)) (getPosition followed);
          newPosition =
            translationMatrix (- (camPosition ! 12)) (- (camPosition ! 13))
              (- (camPosition ! 14));
          velocityMatrix =
            mul (translationMatrix
                   (newPosition ! 12 - cam_position camera ! 12)
                   (newPosition ! 13 - cam_position camera ! 13)
                   (newPosition ! 14 - cam_position camera ! 14))
                newOrientation
      in camera
           \<lparr> cam_orientation := newOrientation,
             cam_velocity := [velocityMatrix ! 12, velocityMatrix ! 13, velocityMatrix ! 14],
             cam_position := newPosition \<rparr>)"

text \<open>Lines 410-625.\<close>

definition controlCamera :: "(nat \<Rightarrow> bool) \<Rightarrow> camera \<Rightarrow> camera" where
  "controlCamera currentlyPressedKeys camera =
     (let c1 = camera \<lparr> cam_angularVelocity :=
                          controlCamera_direction currentlyPressedKeys camera \<rparr>;
          c2 = c1 \<lparr> cam_velocity := controlCamera_velocity currentlyPressedKeys c1 \<rparr>;
          c3 = (case followedObject c2 of None \<Rightarrow> controlCamera_free c2 | Some obj \<Rightarrow> c2);
          c4 = controlCamera_fov currentlyPressedKeys c3
      in case followedObject c4 of
           None \<Rightarrow> c4
         | Some obj \<Rightarrow> controlCamera_follow obj c4)"

text \<open>
  The placement in the words of the spec: the transform of the followed object composed
  with the follow offset. The follow position is carried through the orientation and the
  position of the object, the follow orientation through its orientation.
\<close>

definition followComposition_position :: "followedObject \<Rightarrow> camera \<Rightarrow> mat4" where
  "followComposition_position obj camera =
     mul (mul (followPosition camera) (getOrientation obj)) (getPosition obj)"

definition followComposition_orientation :: "followedObject \<Rightarrow> camera \<Rightarrow> mat4" where
  "followComposition_orientation obj camera =
     mul (followOrientation camera) (getOrientation obj)"

section \<open>The dispatcher: control\<close>

text \<open>
  The globals and arguments that control reads and writes: activeCameraIndex, lightTurn
  and mapSize, the cameras of the resource center, the camera of the scene and the
  spacecrafts of the level. \<open>Math.random()\<close> is an input: mathRandom lists the values
  it returns, call by call, and randomCalls counts the calls made so far.
\<close>

record world =
  activeCameraIndex :: js_index
  lightTurn :: bool
  mapSize :: real
  mathRandom :: "nat \<Rightarrow> real"
  randomCalls :: nat
  cameras :: "camera list"
  activeCamera :: camera
  spacecrafts :: "spacecraft list"

datatype js_error = TypeError

text \<open>\<open>resourceCenter.cameras[activeCameraIndex]\<close>: undefined outside the array.\<close>

definition cameraAt :: "camera list \<Rightarrow> js_index \<Rightarrow> nat option" where
  "cameraAt cams ix =
     (case ix of
        Idx k \<Rightarrow> (if 0 \<le> k \<and> k < int (length cams) then Some (nat k) else None)
      | NaN \<Rightarrow> None)"

text \<open>
  Modelled from the spec: followCamera is a method of the scene's camera that is not under
  src/; it rebinds the followed camera.
\<close>

definition followCamera :: "nat option \<Rightarrow> camera \<Rightarrow> camera" where
  "followCamera target camera = camera \<lparr> followedCamera := target \<rparr>"

text \<open>Lines 643-646 and 648-651: the events 'c' and 'x'.\<close>

definition control_nextCamera :: "world \<Rightarrow> world" where
  "control_nextCamera w =
     (let ix = (case activeCameraIndex w of
                  Idx k \<Rightarrow> js_rem (k + 1) (int (length (cameras w)))
                | NaN \<Rightarrow> NaN)
      in w \<lparr> activeCameraIndex := ix,
             activeCamera := followCamera (cameraAt (cameras w) ix) (activeCamera w) \<rparr>)"

definition control_previousCamera :: "world \<Rightarrow> world" where
  "control_previousCamera w =
     (let ix = (case activeCameraIndex w of
                  Idx k \<Rightarrow> js_rem (k - 1) (int (length (cameras w)))
                | NaN \<Rightarrow> NaN)
      in w \<lparr> activeCameraIndex := ix,
             activeCamera := followCamera (cameraAt (cameras w) ix) (activeCamera w) \<rparr>)"

text \<open>
  Lines 653-666: the events 'm' and 'n' give the craft before the followed camera a new
  pilot. Writing the controller of a craft that is not in the array throws a TypeError.
  The new autonomous pilot gets ten goals at random places of the map.
\<close>

definition control_targetCraft :: "world \<Rightarrow> nat option" where
  "control_targetCraft w =
     (case activeCameraIndex w of
        Idx k \<Rightarrow> (if k > 0 then Some (nat (k - 1)) else None)
      | NaN \<Rightarrow> None)"

definition control_setManual :: "world \<Rightarrow> js_error + world" where
  "control_setManual w =
     (case control_targetCraft w of
        None \<Rightarrow> Inr w
      | Some j \<Rightarrow>
          (if j < length (spacecrafts w) then
             Inr (w \<lparr> spacecrafts :=
                      (spacecrafts w)
                        [j := (spacecrafts w ! j) \<lparr> controller := FighterController FM_INERTIAL 0 \<rparr>] \<rparr>)
           else Inl TypeError))"

definition randomGoal :: "world \<Rightarrow> nat \<Rightarrow> goal" where
  "randomGoal w j =
     Goal (translationMatrix
       (mathRandom w (randomCalls w + 3 * j) * mapSize w - mapSize w / 2)
       (mathRandom w (randomCalls w + 3 * j + 1) * mapSize w - mapSize w / 2)
       (mathRandom w (randomCalls w + 3 * j + 2) * mapSize w - mapSize w / 2))"

definition control_setAI :: "world \<Rightarrow> js_error + world" where
  "control_setAI w =
     (case control_targetCraft w of
        None \<Rightarrow> Inr w
      | Some j \<Rightarrow>
          (if j < length (spacecrafts w) then
             Inr (w \<lparr> spacecrafts :=
                      (spacecrafts w)
                        [j := (spacecrafts w ! j)
                           \<lparr> controller := AIController (map (randomGoal w) [0..<10]) \<rparr>],
                    randomCalls := randomCalls w + 30 \<rparr>)
           else Inl TypeError))"

text \<open>
  Lines 668-672: the event '0' empties the goals of every pilot. On a manual pilot the
  assignment creates a property that its control never reads.
\<close>

definition stopped :: "controller \<Rightarrow> controller" where
  "stopped c =
     (case c of
        AIController gs \<Rightarrow> AIController []
      | FighterController m v \<Rightarrow> FighterController m v)"

definition control_stopAll :: "world \<Rightarrow> world" where
  "control_stopAll w =
     w \<lparr> spacecrafts := map (\<lambda>s. s \<lparr> controller := stopped (controller s) \<rparr>) (spacecrafts w) \<rparr>"

text \<open>Lines 678-686: the event 'h' shows or hides the hitboxes.\<close>

definition toggleHitbox :: "subnode \<Rightarrow> subnode" where
  "toggleHitbox n =
     (if filename n = ''textures/white.png'' then n \<lparr> visible := \<not> visible n \<rparr> else n)"

definition control_toggleHitboxes :: "world \<Rightarrow> world" where
  "control_toggleHitboxes w =
     w \<lparr> spacecrafts :=
           map (\<lambda>s. s \<lparr> subnodes := map toggleHitbox (subnodes s) \<rparr>) (spacecrafts w) \<rparr>"

text \<open>
  Lines 641-686: the body of the loop for one event, before the splice. The loops of the
  events '0' and 'h' run on the variable \<open>i\<close> of the event loop itself (a \<open>var\<close>
  belongs to the function), so they leave it at the number of spacecrafts. The result is
  the value of \<open>i\<close> and the world after the body.
\<close>

definition control_event :: "keyEvent \<Rightarrow> nat \<Rightarrow> world \<Rightarrow> js_error + (nat \<times> world)" where
  "control_event event i w =
     (let ch = getChar event;
          w1 = (if ch = Some (of_char CHR ''c'') then control_nextCamera w else w);
          w2 = (if ch = Some (of_char CHR ''x'') then control_previousCamera w1 else w1)
      in
      case (if ch = Some (of_char CHR ''m'') then control_setManual w2 else Inr w2) of
        Inl e \<Rightarrow> Inl e
      | Inr w3 \<Rightarrow>
          (case (if ch = Some (of_char CHR ''n'') then control_setAI w3 else Inr w3) of
             Inl e \<Rightarrow> Inl e
           | Inr w4 \<Rightarrow>
               (let (i5, w5) =
                      (if ch = Some (of_char CHR ''0'')
                       then (length (spacecrafts w4), control_stopAll w4) else (i, w4));
                    w6 = (if ch = Some (of_char CHR ''l'')
                          then w5 \<lparr> lightTurn := \<not> lightTurn w5 \<rparr> else w5)
                in
                Inr (if ch = Some (of_char CHR ''h'')
                     then (length (spacecrafts w6), control_toggleHitboxes w6)
                     else (i5, w6)))))"

text \<open>
  Lines 640-689: the event loop. After the body the event at \<open>i\<close> is spliced out of the
  queue; \<open>i -= 1\<close> and the loop's \<open>i++\<close> then leave the index where the body left it.
  A TypeError ends the invocation.
\<close>

function control_keyPressEvents ::
  "nat \<Rightarrow> keyEvent list \<Rightarrow> world \<Rightarrow> js_error + (keyEvent list \<times> world)" where
  "control_keyPressEvents i keyPressEvents w =
     (if i < length keyPressEvents then
        (case control_event (keyPressEvents ! i) i w of
           Inl e \<Rightarrow> Inl e
         | Inr (i', w') \<Rightarrow> control_keyPressEvents i' (array_splice i' 1 keyPressEvents) w')
      else Inr (keyPressEvents, w))"
  by pat_completeness auto
termination
  by (relation "measure (\<lambda>(i, q, w). if i < length q then length q + 1 else 0)")
     (auto simp: array_splice_def)

text \<open>
  Lines 627-696. The camera that the scene's camera follows is one of the resource
  center's cameras, so controlCamera changes it there. \<open>alert\<close> changes nothing here.
  The method update of the scene's camera is not under src/ and is a parameter.
\<close>

definition control_camera :: "(nat \<Rightarrow> bool) \<Rightarrow> world \<Rightarrow> world" where
  "control_camera currentlyPressedKeys w =
     (case followedCamera (activeCamera w) of
        None \<Rightarrow> w \<lparr> activeCamera := controlCamera currentlyPressedKeys (activeCamera w) \<rparr>
      | Some k \<Rightarrow>
          (let c = controlCamera currentlyPressedKeys (cameras w ! k)
           in w \<lparr> cameras := (cameras w) [k := c],
                  activeCamera := (activeCamera w)
                    \<lparr> cam_velocity := cam_velocity c,
                      cam_angularVelocity := cam_angularVelocity c \<rparr> \<rparr>))"

definition control ::
  "(camera \<Rightarrow> camera) \<Rightarrow> (nat \<Rightarrow> bool) \<Rightarrow> keyEvent list \<Rightarrow> world \<Rightarrow>
     js_error + (keyEvent list \<times> world)" where
  "control update currentlyPressedKeys keyPressEvents w =
     (case control_keyPressEvents 0 keyPressEvents (control_camera currentlyPressedKeys w) of
        Inl e \<Rightarrow> Inl e
      | Inr (events, w') \<Rightarrow>
          (let c = update (activeCamera w')
           in Inr (events,
                   w' \<lparr> activeCamera := c \<lparr> matrix := mul (cam_position c) (cam_orientation c) \<rparr> \<rparr>)))"

section \<open>Reading the commands of an invocation\<close>

text \<open>The thruster group a command burns, if it names one.\<close>

fun thruster :: "command \<Rightarrow> string option" where
  "thruster (AddThrusterBurn use v) = Some use"
| "thruster (AddThrusterBurnCapped use v n) = Some use"
| "thruster c = None"

fun directional :: "command \<Rightarrow> bool" where
  "directional (AddDirectionalThrusterBurn d v) = True"
| "directional c = False"

definition burnsOn :: "string \<Rightarrow> command list \<Rightarrow> command list" where
  "burnsOn use cs = filter (\<lambda>c. thruster c = Some use) cs"

text \<open>The thruster groups of the linear motion, which the turning blocks never burn.\<close>

definition linearThruster :: "string \<Rightarrow> bool" where
  "linearThruster use =
     (use \<in> {''slideLeft'', ''slideRight'', ''raise'', ''lower'', ''forward'', ''reverse''})"

section \<open>Concrete states\<close>

text \<open>
  A keypress of a printable character; a craft of mass 1 at the origin that does not
  turn, with a given velocity and with thrust 1; a camera at the origin and an object for
  it to follow; a world of three cameras and one craft.
\<close>

definition keyPress :: "char \<Rightarrow> keyEvent" where
  "keyPress c = \<lparr> which = Some (of_char c), keyCode = of_char c, charCode = of_char c \<rparr>"

definition exampleModel :: "mat4 \<Rightarrow> physicalModel" where
  "exampleModel vel =
     \<lparr> position = translationMatrix 0 0 0,
       orientation = identityMatrix4,
       velocity = vel,
       angularVelocity = identityMatrix4,
       mass = 1,
       modelMatrixInverse = identityMatrix4 \<rparr>"

definition exampleCraft :: "mat4 \<Rightarrow> spacecraft" where
  "exampleCraft vel =
     \<lparr> physicalModel = exampleModel vel,
       propulsion = \<lparr> thrust = 1, angularThrust = 1 \<rparr>,
       controller = AIController [Goal (translationMatrix 0 3 (- 4))],
       subnodes = [] \<rparr>"

definition exampleCamera :: "followedObject option \<Rightarrow> camera" where
  "exampleCamera obj =
     \<lparr> cam_position = translationMatrix 0 0 0,
       cam_orientation = identityMatrix4,
       cam_velocity = [0, 0, 0],
       cam_angularVelocity = [0, 0, 0],
       maxSpeed = 5,
       acceleration = 1,
       maxTurn = 1,
       angularAcceleration = 1,
       fov = 60,
       controllableDirection = True,
       controllablePosition = True,
       followedObject = obj,
       followPosition = translationMatrix 0 0 0,
       followOrientation = identityMatrix4,
       followedCamera = None,
       matrix = identityMatrix4 \<rparr>"

definition exampleTarget :: followedObject where
  "exampleTarget = \<lparr> getOrientation = identityMatrix4, getPosition = translationMatrix 1 2 3 \<rparr>"

definition exampleWorld :: world where
  "exampleWorld =
     \<lparr> activeCameraIndex = Idx 0,
       lightTurn = False,
       mapSize = 100,
       mathRandom = (\<lambda>n. 0),
       randomCalls = 0,
       cameras = [exampleCamera None, exampleCamera None, exampleCamera None],
       activeCamera = exampleCamera None,
       spacecrafts = [exampleCraft (translationMatrix 0 0 0)] \<rparr>"

declare FighterController_keyPressEvents.simps [simp del]
declare control_keyPressEvents.simps [simp del]

section \<open>Facts about the commands and the view\<close>

lemma burnsOn_append: "burnsOn u (xs @ ys) = burnsOn u xs @ burnsOn u ys"
  by (simp add: burnsOn_def)

lemma burnsOn_Cons:
  "burnsOn u (c # cs) = (if thruster c = Some u then c # burnsOn u cs else burnsOn u cs)"
  by (simp add: burnsOn_def)

lemma burnsOn_Nil: "burnsOn u [] = []"
  by (simp add: burnsOn_def)

lemma speed2_nonneg: "0 \<le> speed2 pm"
  by (simp add: speed2_def translationDistance2_def)


lemma speed_squared: "(speed pm)\<^sup>2 = speed2 pm"
  by (simp add: speed_def speed2_nonneg)

section \<open>The event loop of the manual pilot\<close>

text \<open>
  From any index on, the loop keeps the events before the index, removes the 'o' events
  behind it and switches the flight mode once for each.
\<close>

lemma FighterController_keyPressEvents_from:
  "FighterController_keyPressEvents i q m =
     (take i q @ filter (\<lambda>e. getChar e \<noteq> Some (of_char CHR ''o'')) (drop i q),
      (if filter (\<lambda>e. getChar e = Some (of_char CHR ''o'')) (drop i q) = [] then m
       else (m + length (filter (\<lambda>e. getChar e = Some (of_char CHR ''o'')) (drop i q)))
              mod NUM_FLIGHTMODES))"
proof (induction i q m rule: FighterController_keyPressEvents.induct)
  case (1 i q m)
  show ?case
  proof (cases "i < length q")
    case False
    then show ?thesis
      by (simp add: FighterController_keyPressEvents.simps [of i q m])
  next
    case True
    note len = this
    have split: "drop i q = q ! i # drop (Suc i) q"
      using len by (simp add: Cons_nth_drop_Suc)
    show ?thesis
    proof (cases "getChar (q ! i) = Some (of_char CHR ''o'')")
      case True
      have t: "take i (array_splice i (Suc 0) q) = take i q"
        using len by (simp add: array_splice_def)
      have d: "drop i (array_splice i (Suc 0) q) = drop (Suc i) q"
        using len by (simp add: array_splice_def)
      show ?thesis
        using "1.IH"(1) [OF len True] len True
        by (simp add: FighterController_keyPressEvents.simps [of i q m] t d split mod_simps)
    next
      case False
      have t: "take (Suc i) q = take i q @ [q ! i]"
        using len by (simp add: take_Suc_conv_app_nth)
      show ?thesis
        using "1.IH"(2) [OF len False] len False
        by (simp add: FighterController_keyPressEvents.simps [of i q m] t split)
    qed
  qed
qed

section \<open>Facts about the concrete states\<close>

lemma sqrt_25: "sqrt 25 = 5"
  by (rule real_sqrt_unique) simp_all

lemma sqrt_9_25: "sqrt (9 / 25) = 3 / 5"
  by (rule real_sqrt_unique) (simp_all add: power2_eq_square)

lemma sqrt_16_25: "sqrt (16 / 25) = 4 / 5"
  by (rule real_sqrt_unique) (simp_all add: power2_eq_square)

lemma sqrt_4_25: "sqrt (4 / 25) = 2 / 5"
  by (rule real_sqrt_unique) (simp_all add: power2_eq_square)

text \<open>The sine of an angle is at most the angle, which bounds this arc cosine from below.\<close>

lemma arccos_3_5: "4 / 5 \<le> arccos (3 / 5)"
proof -
  have "sin (arccos (3 / 5)) = sqrt (1 - (3 / 5)\<^sup>2)"
    by (rule sin_arccos) simp_all
  also have "\<dots> = 4 / 5"
    by (simp add: power2_eq_square sqrt_16_25)
  finally have s: "sin (arccos (3 / 5)) = 4 / 5" .
  have "0 \<le> arccos (3 / 5 :: real)"
    by (rule arccos_lbound) simp_all
  then have "sin (arccos (3 / 5)) \<le> arccos (3 / 5 :: real)"
    by (rule sin_x_le_x)
  with s show ?thesis by simp
qed

lemma getChar_keyPress:
  "getChar (keyPress CHR ''o'') = Some (of_char CHR ''o'')"
  "getChar (keyPress CHR ''0'') = Some 48"
  "getChar (keyPress CHR ''l'') = Some 108"
  "getChar (keyPress CHR ''x'') = Some 120"
  by (simp_all add: getChar_def keyPress_def fromCharCode_def)

lemma exampleModel_fields:
  "position (exampleModel vel) = translationMatrix 0 0 0"
  "orientation (exampleModel vel) = identityMatrix4"
  "velocity (exampleModel vel) = vel"
  "angularVelocity (exampleModel vel) = identityMatrix4"
  "mass (exampleModel vel) = 1"
  "modelMatrixInverse (exampleModel vel) = identityMatrix4"
  by (simp_all add: exampleModel_def)

lemma exampleCraft_fields:
  "physicalModel (exampleCraft vel) = exampleModel vel"
  "thrust (propulsion (exampleCraft vel)) = 1"
  "angularThrust (propulsion (exampleCraft vel)) = 1"
  by (simp_all add: exampleCraft_def)

lemma exampleCraft_acc: "acc (exampleCraft vel) = 1" "turnAcc (exampleCraft vel) = 1"
  by (simp_all add: acc_def turnAcc_def exampleCraft_fields exampleModel_fields)

lemma mul_identity: "mul identityMatrix4 identityMatrix4 = identityMatrix4"
  by (simp add: mul_def identityMatrix4_def)

lemma exampleModel_turningMatrix: "turningMatrix (exampleModel vel) = identityMatrix4"
  by (simp add: turningMatrix_def exampleModel_fields identityMatrix4_def mul_def
      matrix4from3_def matrix3from4_def)

lemma exampleModel_directionVector: "directionVector (exampleModel vel) = [0, 1, 0]"
  by (simp add: directionVector_def exampleModel_fields identityMatrix4_def normalizeVector_def
      vectorLength_def)

lemma exampleModel_relativeVelocity:
  "relativeVelocity (exampleModel (translationMatrix x y z)) ! 12 = x"
  "relativeVelocity (exampleModel (translationMatrix x y z)) ! 13 = y"
  "relativeVelocity (exampleModel (translationMatrix x y z)) ! 14 = z"
  by (simp_all add: relativeVelocity_def exampleModel_fields translationMatrix_def
      identityMatrix4_def matrix3from4_def matrix4from3_def mul_def)

lemma exampleModel_speed2:
  "speed2 (exampleModel (translationMatrix x y z)) = x * x + y * y + z * z"
  by (simp add: speed2_def exampleModel_fields translationMatrix_def translationDistance2_def
      nullMatrix4_def)

lemma exampleModel_rest:
  "speed2 (exampleModel (translationMatrix 0 0 0)) = 0"
  "speed (exampleModel (translationMatrix 0 0 0)) = 0"
  "velocityVector (exampleModel (translationMatrix 0 0 0)) = [0, 0, 0]"
  by (simp_all add: speed_def velocityVector_def exampleModel_speed2)

lemma exampleModel_moving:
  "speed (exampleModel (translationMatrix 0 1 0)) = 1"
  "velocityVector (exampleModel (translationMatrix 0 1 0)) = [0, 1, 0]"
proof -
  show s: "speed (exampleModel (translationMatrix 0 1 0)) = 1"
    by (simp add: speed_def exampleModel_speed2)
  show "velocityVector (exampleModel (translationMatrix 0 1 0)) = [0, 1, 0]"
    unfolding velocityVector_def s
    by (simp add: exampleModel_fields translationMatrix_def normalizeVector_def vectorLength_def)
qed

text \<open>A goal two units ahead, a goal 0.4 units ahead and a goal ahead and below.\<close>

lemma goal_ahead:
  "distance (exampleModel vel) (Goal (translationMatrix 0 2 0)) = 2"
  "toGoal (exampleModel vel) (Goal (translationMatrix 0 2 0)) = [0, 1, 0]"
  by (simp_all add: distance_def distance2_def toGoal_def exampleModel_fields
      translationMatrix_def translationDistance2_def normalizeVector_def vectorLength_def)

lemma goal_near: "distance (exampleModel vel) (Goal (translationMatrix 0 0.4 0)) = 0.4"
  by (simp add: distance_def distance2_def exampleModel_fields translationMatrix_def
      translationDistance2_def sqrt_4_25)

lemma goal_below:
  "distance (exampleModel vel) (Goal (translationMatrix 0 3 (- 4))) = 5"
  "toGoal (exampleModel vel) (Goal (translationMatrix 0 3 (- 4))) = [0, 3 / 5, - 4 / 5]"
  "relativeToGoal (exampleModel vel) (Goal (translationMatrix 0 3 (- 4))) = [0, 3 / 5, - 4 / 5]"
  by (simp_all add: distance_def distance2_def toGoal_def relativeToGoal_def exampleModel_fields
      translationMatrix_def translationDistance2_def normalizeVector_def vectorLength_def
      sqrt_25 vector3Matrix3Product_def matrix3from4_def identityMatrix4_def)

lemma goal_below_angles:
  "yawAngleDifference (exampleModel vel) (Goal (translationMatrix 0 3 (- 4))) = 0"
  "pitchAngleDifference (exampleModel vel) (Goal (translationMatrix 0 3 (- 4))) = arccos (3 / 5)"
  "yawAngularVelocity (exampleModel vel) = 0"
  "pitchAngularVelocity (exampleModel vel) = 0"
  "rollAngularVelocity (exampleModel vel) = 0"
  by (simp_all add: yawAngleDifference_def pitchAngleDifference_def yawAngularVelocity_def
      pitchAngularVelocity_def rollAngularVelocity_def goal_below exampleModel_turningMatrix
      identityMatrix4_def angleDifferenceOfUnitVectors2D_def normalizeVector2D_def
      vectorLength2D_def sqrt_9_25)

text \<open>One 'o' event and no held key: the manual pilot ends in the compensated mode.\<close>

lemma manual_toggle:
  "fr_flightMode (FighterController_control (\<lambda>k. False) [keyPress CHR ''o''] FM_INERTIAL 0 e) =
     FM_COMPENSATED"
  "fr_intendedSpeed (FighterController_control (\<lambda>k. False) [keyPress CHR ''o''] FM_INERTIAL 0 e) = 0"
  by (simp_all add: FighterController_control_def FighterController_keyPressEvents_from
      split_beta Let_def getChar_keyPress FM_INERTIAL_def FM_COMPENSATED_def
      NUM_FLIGHTMODES_def FighterController_keyW_def FighterController_keyS_def
      FighterController_keyBackspace_def)

section \<open>The manual pilot\<close>

text \<open>
  Claim C10. Whatever the shared queue of keypress events holds, one invocation of the
  manual pilot's control leaves in it exactly the events whose character is not 'o', in
  their order, and has switched the flight mode once for each 'o' event, modulo the number
  of flight modes (with no such event the flight mode is as it was).
\<close>

theorem FighterController_control_keyPressEvents:
  "fr_keyPressEvents (FighterController_control keys q m v e) =
     filter (\<lambda>ev. getChar ev \<noteq> Some (of_char CHR ''o'')) q \<and>
   fr_flightMode (FighterController_control keys q m v e) =
     (if filter (\<lambda>ev. getChar ev = Some (of_char CHR ''o'')) q = [] then m
      else (m + length (filter (\<lambda>ev. getChar ev = Some (of_char CHR ''o'')) q))
             mod NUM_FLIGHTMODES)"
  by (simp add: FighterController_control_def FighterController_keyPressEvents_from
      split_beta Let_def)

subsection \<open>The normalizations of the manual pilot\<close>

text \<open>
  The manual pilot never normalizes the zero vector: the velocity is guarded by the speed,
  and a turning rate is normalized only when it is outside the deadband.
\<close>

lemma vectorLength2D_zero: "vectorLength2D [a, b] = 0 \<longleftrightarrow> a = 0 \<and> b = 0"
  by (simp add: vectorLength2D_def sum_squares_eq_zero_iff)

lemma velocity_length:
  "vectorLength [velocity pm ! 12, velocity pm ! 13, velocity pm ! 14] = speed pm"
  by (simp add: vectorLength_def speed_def speed2_def translationDistance2_def nullMatrix4_def)

lemma FighterController_divisors_nonzero: "0 \<notin> set (FighterController_divisors keys e)"
  by (auto simp: FighterController_divisors_def Let_def vectorLength2D_zero velocity_length)

subsection \<open>The drift correction of the compensated mode\<close>

lemma FighterController_yaw_linear:
  "linearThruster u \<Longrightarrow> burnsOn u (FighterController_yaw keys e) = []"
  by (auto simp: FighterController_yaw_def Let_def burnsOn_def linearThruster_def)

lemma FighterController_pitch_linear:
  "linearThruster u \<Longrightarrow> burnsOn u (FighterController_pitch keys e) = []"
  by (auto simp: FighterController_pitch_def Let_def burnsOn_def linearThruster_def)

lemma FighterController_roll_linear:
  "linearThruster u \<Longrightarrow> burnsOn u (FighterController_roll keys e) = []"
  by (auto simp: FighterController_roll_def Let_def burnsOn_def linearThruster_def)

text \<open>
  In the compensated mode the keys W and S only move the intended speed, so the burns on a
  linear thruster group are those of the drift correction.
\<close>

lemma FighterController_compensated_commands:
  assumes "fr_flightMode (FighterController_control keys q m v e) = FM_COMPENSATED"
    and "linearThruster u"
  shows "burnsOn u (fr_commands (FighterController_control keys q m v e)) =
           burnsOn u (FighterController_slide (relativeVelocity (physicalModel e))) @
           burnsOn u (FighterController_raise (relativeVelocity (physicalModel e))) @
           burnsOn u (FighterController_cruise
                        (fr_intendedSpeed (FighterController_control keys q m v e))
                        (relativeVelocity (physicalModel e)))"
  using assms
  by (simp add: FighterController_control_def split_beta Let_def burnsOn_append burnsOn_Cons
      burnsOn_Nil FighterController_yaw_linear FighterController_pitch_linear
      FighterController_roll_linear FighterController_keyW_def FighterController_keyS_def
      FighterController_compensated_def FM_COMPENSATED_def FM_INERTIAL_def)

text \<open>
  Claim C7. Let the flight mode of the invocation (after its 'o' events) be COMPENSATED,
  and let the target of the longitudinal axis be the intended speed of the invocation
  (after its keys W, S and backspace). A component of the frame-relative velocity within
  0.0001 of its target (0 for the axes 12 and 14, the intended speed for the axis 13) gets
  no burn on either thruster group of its axis. A component further off gets exactly one
  burn, capped at 0.5 and sized for the deviation, on the group that matches the sign of
  the deviation, and none on the opposite group.
\<close>

theorem FighterController_control_deadband:
  assumes "fr_flightMode (FighterController_control keys q m v e) = FM_COMPENSATED"
  shows "(\<bar>relativeVelocity (physicalModel e) ! 12\<bar> \<le> 0.0001 \<longrightarrow>
            burnsOn ''slideLeft'' (fr_commands (FighterController_control keys q m v e)) = [] \<and>
            burnsOn ''slideRight'' (fr_commands (FighterController_control keys q m v e)) = []) \<and>
         (\<bar>relativeVelocity (physicalModel e) ! 14\<bar> \<le> 0.0001 \<longrightarrow>
            burnsOn ''raise'' (fr_commands (FighterController_control keys q m v e)) = [] \<and>
            burnsOn ''lower'' (fr_commands (FighterController_control keys q m v e)) = []) \<and>
         (\<bar>relativeVelocity (physicalModel e) ! 13 -
            fr_intendedSpeed (FighterController_control keys q m v e)\<bar> \<le> 0.0001 \<longrightarrow>
            burnsOn ''forward'' (fr_commands (FighterController_control keys q m v e)) = [] \<and>
            burnsOn ''reverse'' (fr_commands (FighterController_control keys q m v e)) = []) \<and>
         (relativeVelocity (physicalModel e) ! 12 < - 0.0001 \<longrightarrow>
            burnsOn ''slideRight'' (fr_commands (FighterController_control keys q m v e)) =
              [AddThrusterBurnCapped ''slideRight'' 0.5
                 (NeededBurnForAcc (- (relativeVelocity (physicalModel e) ! 12)))] \<and>
            burnsOn ''slideLeft'' (fr_commands (FighterController_control keys q m v e)) = []) \<and>
         (relativeVelocity (physicalModel e) ! 12 > 0.0001 \<longrightarrow>
            burnsOn ''slideLeft'' (fr_commands (FighterController_control keys q m v e)) =
              [AddThrusterBurnCapped ''slideLeft'' 0.5
                 (NeededBurnForAcc (relativeVelocity (physicalModel e) ! 12))] \<and>
            burnsOn ''slideRight'' (fr_commands (FighterController_control keys q m v e)) = []) \<and>
         (relativeVelocity (physicalModel e) ! 14 < - 0.0001 \<longrightarrow>
            burnsOn ''raise'' (fr_commands (FighterController_control keys q m v e)) =
              [AddThrusterBurnCapped ''raise'' 0.5
                 (NeededBurnForAcc (- (relativeVelocity (physicalModel e) ! 14)))] \<and>
            burnsOn ''lower'' (fr_commands (FighterController_control keys q m v e)) = []) \<and>
         (relativeVelocity (physicalModel e) ! 14 > 0.0001 \<longrightarrow>
            burnsOn ''lower'' (fr_commands (FighterController_control keys q m v e)) =
              [AddThrusterBurnCapped ''lower'' 0.5
                 (NeededBurnForAcc (relativeVelocity (physicalModel e) ! 14))] \<and>
            burnsOn ''raise'' (fr_commands (FighterController_control keys q m v e)) = []) \<and>
         (relativeVelocity (physicalModel e) ! 13 <
            fr_intendedSpeed (FighterController_control keys q m v e) - 0.0001 \<longrightarrow>
            burnsOn ''forward'' (fr_commands (FighterController_control keys q m v e)) =
              [AddThrusterBurnCapped ''forward'' 0.5
                 (NeededBurnForAcc (fr_intendedSpeed (FighterController_control keys q m v e) -
                    relativeVelocity (physicalModel e) ! 13))] \<and>
            burnsOn ''reverse'' (fr_commands (FighterController_control keys q m v e)) = []) \<and>
         (relativeVelocity (physicalModel e) ! 13 >
            fr_intendedSpeed (FighterController_control keys q m v e) + 0.0001 \<longrightarrow>
            burnsOn ''reverse'' (fr_commands (FighterController_control keys q m v e)) =
              [AddThrusterBurnCapped ''reverse'' 0.5
                 (NeededBurnForAcc (relativeVelocity (physicalModel e) ! 13 -
                    fr_intendedSpeed (FighterController_control keys q m v e)))] \<and>
            burnsOn ''forward'' (fr_commands (FighterController_control keys q m v e)) = [])"
proof -
  have lin: "linearThruster ''slideLeft''" "linearThruster ''slideRight''"
    "linearThruster ''raise''" "linearThruster ''lower''"
    "linearThruster ''forward''" "linearThruster ''reverse''"
    by (simp_all add: linearThruster_def)
  note c = lin [THEN FighterController_compensated_commands [OF assms]]
  show ?thesis
    unfolding c
    by (simp add: FighterController_slide_def FighterController_raise_def
        FighterController_cruise_def burnsOn_Cons burnsOn_Nil)
qed

text \<open>
  The theorem at three crafts, each toggled into the compensated mode by one 'o' event
  with no key held: one at rest, one drifting by (-1, -2, -3) and one by (1, 2, 3) in its
  own frame.
\<close>

theorem FighterController_control_deadband_witness:
  "fr_flightMode (FighterController_control (\<lambda>k. False) [keyPress CHR ''o''] FM_INERTIAL 0
      (exampleCraft (translationMatrix 0 0 0))) = FM_COMPENSATED \<and>
   burnsOn ''slideLeft'' (fr_commands (FighterController_control (\<lambda>k. False)
      [keyPress CHR ''o''] FM_INERTIAL 0 (exampleCraft (translationMatrix 0 0 0)))) = [] \<and>
   burnsOn ''slideRight'' (fr_commands (FighterController_control (\<lambda>k. False)
      [keyPress CHR ''o''] FM_INERTIAL 0 (exampleCraft (translationMatrix 0 0 0)))) = [] \<and>
   burnsOn ''raise'' (fr_commands (FighterController_control (\<lambda>k. False)
      [keyPress CHR ''o''] FM_INERTIAL 0 (exampleCraft (translationMatrix 0 0 0)))) = [] \<and>
   burnsOn ''lower'' (fr_commands (FighterController_control (\<lambda>k. False)
      [keyPress CHR ''o''] FM_INERTIAL 0 (exampleCraft (translationMatrix 0 0 0)))) = [] \<and>
   burnsOn ''forward'' (fr_commands (FighterController_control (\<lambda>k. False)
      [keyPress CHR ''o''] FM_INERTIAL 0 (exampleCraft (translationMatrix 0 0 0)))) = [] \<and>
   burnsOn ''reverse'' (fr_commands (FighterController_control (\<lambda>k. False)
      [keyPress CHR ''o''] FM_INERTIAL 0 (exampleCraft (translationMatrix 0 0 0)))) = [] \<and>
   burnsOn ''slideRight'' (fr_commands (FighterController_control (\<lambda>k. False)
      [keyPress CHR ''o''] FM_INERTIAL 0 (exampleCraft (translationMatrix (- 1) (- 2) (- 3))))) =
     [AddThrusterBurnCapped ''slideRight'' 0.5 (NeededBurnForAcc 1)] \<and>
   burnsOn ''forward'' (fr_commands (FighterController_control (\<lambda>k. False)
      [keyPress CHR ''o''] FM_INERTIAL 0 (exampleCraft (translationMatrix (- 1) (- 2) (- 3))))) =
     [AddThrusterBurnCapped ''forward'' 0.5 (NeededBurnForAcc 2)] \<and>
   burnsOn ''raise'' (fr_commands (FighterController_control (\<lambda>k. False)
      [keyPress CHR ''o''] FM_INERTIAL 0 (exampleCraft (translationMatrix (- 1) (- 2) (- 3))))) =
     [AddThrusterBurnCapped ''raise'' 0.5 (NeededBurnForAcc 3)] \<and>
   burnsOn ''slideLeft'' (fr_commands (FighterController_control (\<lambda>k. False)
      [keyPress CHR ''o''] FM_INERTIAL 0 (exampleCraft (translationMatrix 1 2 3)))) =
     [AddThrusterBurnCapped ''slideLeft'' 0.5 (NeededBurnForAcc 1)] \<and>
   burnsOn ''reverse'' (fr_commands (FighterController_control (\<lambda>k. False)
      [keyPress CHR ''o''] FM_INERTIAL 0 (exampleCraft (translationMatrix 1 2 3)))) =
     [AddThrusterBurnCapped ''reverse'' 0.5 (NeededBurnForAcc 2)] \<and>
   burnsOn ''lower'' (fr_commands (FighterController_control (\<lambda>k. False)
      [keyPress CHR ''o''] FM_INERTIAL 0 (exampleCraft (translationMatrix 1 2 3)))) =
     [AddThrusterBurnCapped ''lower'' 0.5 (NeededBurnForAcc 3)]"
  using
    FighterController_control_deadband
      [OF manual_toggle(1) [of "exampleCraft (translationMatrix 0 0 0)"]]
    FighterController_control_deadband
      [OF manual_toggle(1) [of "exampleCraft (translationMatrix (- 1) (- 2) (- 3))"]]
    FighterController_control_deadband
      [OF manual_toggle(1) [of "exampleCraft (translationMatrix 1 2 3)"]]
  by (simp add: manual_toggle exampleCraft_fields exampleModel_relativeVelocity)

section \<open>The autonomous pilot\<close>

text \<open>The turning blocks burn neither the forward group nor along a direction.\<close>

lemma AIController_roll_thrusters:
  "filter (\<lambda>c. thruster c \<noteq> Some ''rollLeft'' \<and> thruster c \<noteq> Some ''rollRight'')
     (AIController_roll e) = []"
  by (simp add: AIController_roll_def Let_def)

lemma AIController_roll_forward: "burnsOn ''forward'' (AIController_roll e) = []"
  by (simp add: AIController_roll_def Let_def burnsOn_def)

lemma AIController_roll_directional: "filter directional (AIController_roll e) = []"
  by (simp add: AIController_roll_def Let_def)

lemma AIController_yaw_forward: "burnsOn ''forward'' (AIController_yaw e g) = []"
  by (simp add: AIController_yaw_def Let_def burnsOn_def)

lemma AIController_yaw_directional: "filter directional (AIController_yaw e g) = []"
  by (simp add: AIController_yaw_def Let_def)

lemma AIController_pitch_forward: "burnsOn ''forward'' (AIController_pitch e g) = []"
  by (simp add: AIController_pitch_def Let_def burnsOn_def)

lemma AIController_pitch_directional: "filter directional (AIController_pitch e g) = []"
  by (simp add: AIController_pitch_def Let_def)



text \<open>
  Claim C5. Let the head goal be at a distance of 0.5 or more, the closing speed not
  negative and not below 0.999 of the speed (as it is when the velocity points at the
  goal, where the two are equal), and the square of the speed at most
  2 * distance * acceleration. Then the invocation burns the forward group once, by 0.5,
  and sends no directional burn, which is how this pilot brakes. The heading error is not
  needed for it.
\<close>

theorem AIController_control_forward_burn:
  assumes "0.5 \<le> distance (physicalModel e) g"
    and "0 \<le> speedTowardsGoal (physicalModel e) g"
    and "speed (physicalModel e) * 0.999 \<le> speedTowardsGoal (physicalModel e) g"
    and "(speed (physicalModel e))\<^sup>2 \<le> 2 * distance (physicalModel e) g * acc e"
  shows "burnsOn ''forward'' (ai_commands (AIController_control e (g # gs))) =
           [AddThrusterBurn ''forward'' 0.5] \<and>
         filter directional (ai_commands (AIController_control e (g # gs))) = []"
proof -
  have long: "AIController_longitudinal e g = [AddThrusterBurn ''forward'' 0.5]"
    using assms by (simp add: AIController_longitudinal_def Let_def speed_squared)
  show ?thesis
    using assms(1)
    by (simp add: AIController_control_def long burnsOn_append burnsOn_Cons burnsOn_Nil
        AIController_yaw_forward AIController_pitch_forward AIController_roll_forward
        AIController_yaw_directional AIController_pitch_directional
        AIController_roll_directional)
qed

text \<open>The theorem at a craft that flies at speed 1 straight at a goal two units ahead.\<close>

theorem AIController_control_forward_burn_witness:
  "0.5 \<le> distance (physicalModel (exampleCraft (translationMatrix 0 1 0)))
            (Goal (translationMatrix 0 2 0)) \<and>
   0 \<le> speedTowardsGoal (physicalModel (exampleCraft (translationMatrix 0 1 0)))
          (Goal (translationMatrix 0 2 0)) \<and>
   speed (physicalModel (exampleCraft (translationMatrix 0 1 0))) * 0.999 \<le>
     speedTowardsGoal (physicalModel (exampleCraft (translationMatrix 0 1 0)))
       (Goal (translationMatrix 0 2 0)) \<and>
   (speed (physicalModel (exampleCraft (translationMatrix 0 1 0))))\<^sup>2 \<le>
     2 * distance (physicalModel (exampleCraft (translationMatrix 0 1 0)))
           (Goal (translationMatrix 0 2 0)) * acc (exampleCraft (translationMatrix 0 1 0)) \<and>
   burnsOn ''forward'' (ai_commands (AIController_control (exampleCraft (translationMatrix 0 1 0))
      [Goal (translationMatrix 0 2 0)])) = [AddThrusterBurn ''forward'' 0.5] \<and>
   filter directional (ai_commands (AIController_control (exampleCraft (translationMatrix 0 1 0))
      [Goal (translationMatrix 0 2 0)])) = []"
proof -
  let ?e = "exampleCraft (translationMatrix 0 1 0)"
  let ?g = "Goal (translationMatrix 0 2 0)"
  have s: "speedTowardsGoal (exampleModel (translationMatrix 0 1 0)) ?g = 1"
    by (simp add: speedTowardsGoal_def exampleModel_moving goal_ahead vectorDotProduct_def)
  have h1: "0.5 \<le> distance (physicalModel ?e) ?g"
    by (simp add: exampleCraft_fields goal_ahead)
  have h2: "0 \<le> speedTowardsGoal (physicalModel ?e) ?g"
    by (simp add: exampleCraft_fields s)
  have h3: "speed (physicalModel ?e) * 0.999 \<le> speedTowardsGoal (physicalModel ?e) ?g"
    by (simp add: s exampleCraft_fields exampleModel_moving)
  have h4: "(speed (physicalModel ?e))\<^sup>2 \<le> 2 * distance (physicalModel ?e) ?g * acc ?e"
    by (simp add: exampleCraft_fields exampleModel_moving goal_ahead exampleCraft_acc)
  from AIController_control_forward_burn [OF h1 h2 h3 h4, of "[]"] h1 h2 h3 h4
  show ?thesis by blast
qed

text \<open>
  Claim C6. With the head goal nearer than 0.5, the invocation removes the head of the
  queue and nothing else, keeps the order of the rest, and after the reset of the
  thrusters sends only the commands of the roll damping: no burn along the line of flight
  and none about the yaw or the pitch axis.
\<close>

theorem AIController_control_arrival:
  assumes "distance (physicalModel e) g < 0.5"
  shows "ai_goals (AIController_control e (g # gs)) = gs \<and>
         ai_commands (AIController_control e (g # gs)) =
           ResetThrusterBurn # AIController_roll e \<and>
         filter (\<lambda>c. thruster c \<noteq> Some ''rollLeft'' \<and> thruster c \<noteq> Some ''rollRight'')
           (ai_commands (AIController_control e (g # gs))) = [ResetThrusterBurn]"
  using assms by (simp add: AIController_control_def AIController_roll_thrusters)

text \<open>The theorem at a goal 0.4 units ahead, with a second goal behind it in the queue.\<close>

theorem AIController_control_arrival_witness:
  "distance (physicalModel (exampleCraft (translationMatrix 0 1 0)))
     (Goal (translationMatrix 0 0.4 0)) < 0.5 \<and>
   ai_goals (AIController_control (exampleCraft (translationMatrix 0 1 0))
     [Goal (translationMatrix 0 0.4 0), Goal (translationMatrix 0 2 0)]) =
     [Goal (translationMatrix 0 2 0)] \<and>
   filter (\<lambda>c. thruster c \<noteq> Some ''rollLeft'' \<and> thruster c \<noteq> Some ''rollRight'')
     (ai_commands (AIController_control (exampleCraft (translationMatrix 0 1 0))
        [Goal (translationMatrix 0 0.4 0), Goal (translationMatrix 0 2 0)])) =
     [ResetThrusterBurn]"
proof -
  have h: "distance (physicalModel (exampleCraft (translationMatrix 0 1 0)))
     (Goal (translationMatrix 0 0.4 0)) < 0.5"
    unfolding exampleCraft_fields goal_near by simp
  from AIController_control_arrival [OF h, of "[Goal (translationMatrix 0 2 0)]"] h
  show ?thesis by blast
qed



text \<open>
  Claim C4. The claim is that each sign branch of the yaw and of the pitch policy gates
  its acceleration phase by the stopping-distance check of its own axis. Lines 368-371,
  the branch of the pitch policy for a goal below the craft, test the yaw terms instead.
  A craft at rest at the origin that does not turn, with the goal at (0, 3, -4): the goal
  is below (the third component of relativeToGoal is -4/5), the pitch rate is inside the
  turning limit, and the check of the pitch axis holds (rate 0, angle error arccos (3/5),
  which is above 0.01). The yaw error and the yaw rate are both 0, so the yaw check
  \<open>0 < 0\<close> fails, and the invocation sends the forward burn only: no pitchDown burn turns
  the craft towards its goal.
\<close>

theorem AIController_pitch_gated_by_yaw:
  "ai_commands (AIController_control (exampleCraft (translationMatrix 0 0 0))
      [Goal (translationMatrix 0 3 (- 4))]) =
     [ResetThrusterBurn, AddThrusterBurn ''forward'' 0.5] \<and>
   relativeToGoal (exampleModel (translationMatrix 0 0 0)) (Goal (translationMatrix 0 3 (- 4))) ! 2
     < - 0.0001 \<and>
   turningMatrix (exampleModel (translationMatrix 0 0 0)) ! 6 > - TURNING_LIMIT \<and>
   pitchAngleDifference (exampleModel (translationMatrix 0 0 0))
     (Goal (translationMatrix 0 3 (- 4))) > 0.01 \<and>
   pitchAngularVelocity (exampleModel (translationMatrix 0 0 0)) *
   pitchAngularVelocity (exampleModel (translationMatrix 0 0 0)) <
     2 * pitchAngleDifference (exampleModel (translationMatrix 0 0 0))
           (Goal (translationMatrix 0 3 (- 4))) *
     turnAcc (exampleCraft (translationMatrix 0 0 0))"
proof -
  let ?e = "exampleCraft (translationMatrix 0 0 0)"
  let ?pm = "exampleModel (translationMatrix 0 0 0)"
  let ?g = "Goal (translationMatrix 0 3 (- 4))"
  have a: "0.01 < arccos (3 / 5 :: real)"
    using arccos_3_5 by simp
  have st: "speedTowardsGoal ?pm ?g = 0"
    by (simp add: speedTowardsGoal_def exampleModel_rest)
  have long: "AIController_longitudinal ?e ?g = [AddThrusterBurn ''forward'' 0.5]"
    by (simp add: AIController_longitudinal_def exampleCraft_fields st exampleModel_rest
        goal_below exampleCraft_acc)
  have yaw: "AIController_yaw ?e ?g = []"
    by (simp add: AIController_yaw_def exampleCraft_fields goal_below_angles
        exampleModel_turningMatrix identityMatrix4_def)
  have pitch: "AIController_pitch ?e ?g = []"
    using a
    by (simp add: AIController_pitch_def exampleCraft_fields goal_below_angles
        exampleModel_turningMatrix identityMatrix4_def goal_below TURNING_LIMIT_def)
  have roll: "AIController_roll ?e = []"
    by (simp add: AIController_roll_def exampleCraft_fields exampleModel_turningMatrix
        identityMatrix4_def)
  show ?thesis
    using a
    by (simp add: AIController_control_def exampleCraft_fields goal_below long yaw pitch roll
        goal_below_angles exampleCraft_acc exampleModel_turningMatrix identityMatrix4_def
        TURNING_LIMIT_def)
qed

text \<open>
  Claim C3. The claim is that no normalization of an invocation divides by zero: each is
  guarded or has an argument that cannot be zero. Line 265 guards the velocity by the
  speed; the other normalizations of the autonomous pilot are not guarded. A craft at rest
  at the origin that does not turn, with its goal at the origin too: the cross product of
  the future and the present direction (line 271) is the zero vector, since the craft does
  not turn, and so is the vector to the goal (line 287). The lengths the invocation
  divides by are 1, 1, 1, 0, 0 and 1.
\<close>

theorem AIController_control_divides_by_zero:
  "AIController_divisors (exampleCraft (translationMatrix 0 0 0))
     [Goal (translationMatrix 0 0 0)] = [1, 1, 1, 0, 0, 1]"
proof -
  have d: "distance (exampleModel vel) (Goal (translationMatrix 0 0 0)) = 0" for vel
    by (simp add: distance_def distance2_def translationDistance2_def exampleModel_fields)
  show ?thesis
    by (simp add: AIController_divisors_def exampleCraft_fields exampleModel_rest
        exampleModel_turningMatrix d exampleModel_fields mul_identity
        exampleModel_directionVector)
       (simp add: identityMatrix4_def translationMatrix_def normalizeVector_def crossProduct_def
        vectorLength_def vectorLength2D_def)
qed

section \<open>The camera\<close>

text \<open>The example camera follows an object at (1, 2, 3) that is not turned.\<close>

lemma quarter_turn: "cos (3.1415 / 2) < (1 :: real)"
proof -
  have "(3.1415 / 2 :: real) \<le> pi"
    using pi_ge_two by simp
  then have "cos (3.1415 / 2) < cos (0 :: real)"
    by (intro cos_monotone_0_pi) simp_all
  then show ?thesis by simp
qed

lemma exampleTarget_composition:
  "followComposition_position exampleTarget (exampleCamera (Some exampleTarget)) =
     translationMatrix 1 2 3"
  "followComposition_orientation exampleTarget (exampleCamera (Some exampleTarget)) =
     identityMatrix4"
  by (simp_all add: followComposition_position_def followComposition_orientation_def
      exampleCamera_def exampleTarget_def mul_def translationMatrix_def identityMatrix4_def)

lemma exampleTarget_placement:
  "cam_position (controlCamera (\<lambda>k. False) (exampleCamera (Some exampleTarget))) =
     translationMatrix (- 1) (- 2) (- 3)"
  "cam_orientation (controlCamera (\<lambda>k. False) (exampleCamera (Some exampleTarget))) ! 5 =
     cos (3.1415 / 2)"
  by (simp_all add: controlCamera_def controlCamera_fov_def controlCamera_follow_def Let_def
      exampleCamera_def exampleTarget_def mul_def translationMatrix_def identityMatrix4_def
      matrix4from3_def matrix3from4_def inverse3_def determinant3_def rotationMatrix4_def)

text \<open>
  Claim C8, as amended. A camera that follows an object is placed by one tick from the
  object's transform and its own follow offset alone, but not at their composition: its
  orientation is the inverse of the object's orientation, turned by 3.1415 / 2 about the
  first axis (to look along y), then composed with the follow orientation; its position
  is the translation opposite to the translation part of the follow position composed
  with the object's orientation and position. The held keys and the velocity and turning
  rates the camera had before do not enter: with any other keys, velocity and turning
  rates the tick gives the same position and orientation.
\<close>

theorem controlCamera_follow_placement:
  assumes "followedObject camera = Some obj"
  shows "cam_orientation (controlCamera keys camera) =
           mul (mul (matrix4from3 (inverse3 (matrix3from4 (getOrientation obj))))
                    (rotationMatrix4 [1, 0, 0] (3.1415 / 2)))
               (followOrientation camera) \<and>
         cam_position (controlCamera keys camera) =
           translationMatrix
             (- (followComposition_position obj camera ! 12))
             (- (followComposition_position obj camera ! 13))
             (- (followComposition_position obj camera ! 14)) \<and>
         cam_orientation
           (controlCamera keys' (camera \<lparr> cam_velocity := vel, cam_angularVelocity := ang \<rparr>)) =
           cam_orientation (controlCamera keys camera) \<and>
         cam_position
           (controlCamera keys' (camera \<lparr> cam_velocity := vel, cam_angularVelocity := ang \<rparr>)) =
           cam_position (controlCamera keys camera)"
  using assms
  by (simp add: controlCamera_def controlCamera_fov_def controlCamera_follow_def Let_def
      followComposition_position_def)

text \<open>
  The theorem at the example camera: placed from rest with no key held, or with the left
  key held from velocity (3, 0, 0) and turning rates (1, 1, 0), it ends at the same place,
  opposite to the object, with the same orientation.
\<close>

theorem controlCamera_follow_placement_witness:
  "followedObject (exampleCamera (Some exampleTarget)) = Some exampleTarget \<and>
   cam_position (controlCamera (\<lambda>k. False) (exampleCamera (Some exampleTarget))) =
     translationMatrix (- 1) (- 2) (- 3) \<and>
   cam_position (controlCamera (\<lambda>k. k = 37)
      ((exampleCamera (Some exampleTarget)) \<lparr> cam_velocity := [3, 0, 0],
         cam_angularVelocity := [1, 1, 0] \<rparr>)) =
     translationMatrix (- 1) (- 2) (- 3) \<and>
   cam_orientation (controlCamera (\<lambda>k. k = 37)
      ((exampleCamera (Some exampleTarget)) \<lparr> cam_velocity := [3, 0, 0],
         cam_angularVelocity := [1, 1, 0] \<rparr>)) =
     cam_orientation (controlCamera (\<lambda>k. False) (exampleCamera (Some exampleTarget)))"
proof -
  have h: "followedObject (exampleCamera (Some exampleTarget)) = Some exampleTarget"
    by (simp add: exampleCamera_def)
  have n: "translationMatrix 1 2 3 ! 12 = 1" "translationMatrix 1 2 3 ! 13 = 2"
    "translationMatrix 1 2 3 ! 14 = 3"
    by (simp_all add: translationMatrix_def)
  from controlCamera_follow_placement
         [OF h, where keys = "\<lambda>k. False" and keys' = "\<lambda>k. k = 37"
            and vel = "[3, 0, 0]" and ang = "[1, 1, 0]"] h
  show ?thesis
    unfolding exampleTarget_composition n by simp
qed

text \<open>
  Claim C8 as it is stated, the position and the orientation being exactly the followed
  transform composed with the follow offset, fails at the example camera. Position: the
  composition is the translation by (1, 2, 3), where the object is, and line 613 negates
  it, so the camera is placed at the translation by (-1, -2, -3). Orientation: the object
  and the follow offset are not turned, so the composition is the identity, and line 597
  turns the camera by 3.1415 / 2 about the first axis, so the entry 5 of its orientation
  is the cosine of that angle and not 1.
\<close>

theorem controlCamera_follow_not_composition:
  "followComposition_position exampleTarget (exampleCamera (Some exampleTarget)) =
     translationMatrix 1 2 3 \<and>
   cam_position (controlCamera (\<lambda>k. False) (exampleCamera (Some exampleTarget))) =
     translationMatrix (- 1) (- 2) (- 3) \<and>
   cam_position (controlCamera (\<lambda>k. False) (exampleCamera (Some exampleTarget))) \<noteq>
     followComposition_position exampleTarget (exampleCamera (Some exampleTarget)) \<and>
   followComposition_orientation exampleTarget (exampleCamera (Some exampleTarget)) ! 5 = 1 \<and>
   cam_orientation (controlCamera (\<lambda>k. False) (exampleCamera (Some exampleTarget))) ! 5 =
     cos (3.1415 / 2) \<and>
   cam_orientation (controlCamera (\<lambda>k. False) (exampleCamera (Some exampleTarget))) \<noteq>
     followComposition_orientation exampleTarget (exampleCamera (Some exampleTarget))"
proof -
  let ?c = "controlCamera (\<lambda>k. False) (exampleCamera (Some exampleTarget))"
  let ?s = "followComposition_orientation exampleTarget (exampleCamera (Some exampleTarget))"
  have s5: "?s ! 5 = 1"
    by (simp add: exampleTarget_composition identityMatrix4_def)
  have "cam_orientation ?c ! 5 \<noteq> ?s ! 5"
    using quarter_turn unfolding exampleTarget_placement(2) s5 by simp
  then have o: "cam_orientation ?c \<noteq> ?s"
    by metis
  have p: "translationMatrix (- 1) (- 2) (- 3) \<noteq> translationMatrix 1 2 3"
    by (simp add: translationMatrix_def)
  show ?thesis
    using o p s5
    by (simp add: exampleTarget_placement exampleTarget_composition(1))
qed

section \<open>The dispatcher\<close>

text \<open>The camera step leaves what the event loop reads, and control ends with the loop.\<close>

lemma control_camera_frame:
  "activeCameraIndex (control_camera keys w) = activeCameraIndex w"
  "lightTurn (control_camera keys w) = lightTurn w"
  "spacecrafts (control_camera keys w) = spacecrafts w"
  "length (cameras (control_camera keys w)) = length (cameras w)"
  by (simp_all add: control_camera_def Let_def split: option.split)

lemma control_result:
  "map_sum id (\<lambda>(events, w). (events, f w)) (control upd keys q w) =
   map_sum id
     (\<lambda>(events, w).
        (events,
         f (w \<lparr> activeCamera :=
                  (upd (activeCamera w))
                    \<lparr> matrix := mul (cam_position (upd (activeCamera w)))
                                   (cam_orientation (upd (activeCamera w))) \<rparr> \<rparr>)))
     (control_keyPressEvents 0 q (control_camera keys w))"
  by (simp add: control_def Let_def split: sum.split prod.split)

text \<open>
  An event other than '0' and 'h' leaves the index of the loop alone, so a queue without
  these two events is emptied from the index on, unless a TypeError ends the invocation.
\<close>

lemma control_event_index:
  assumes "control_event ev i w = Inr (i', w')"
    and "getChar ev \<noteq> Some (of_char CHR ''0'')" and "getChar ev \<noteq> Some (of_char CHR ''h'')"
  shows "i' = i"
  using assms
  by (auto simp: control_event_def Let_def split: sum.splits if_splits)

lemma control_keyPressEvents_drains:
  assumes "control_keyPressEvents i q w = Inr (q', w')"
    and "\<forall>ev \<in> set (drop i q).
           getChar ev \<noteq> Some (of_char CHR ''0'') \<and> getChar ev \<noteq> Some (of_char CHR ''h'')"
  shows "q' = take i q"
  using assms
proof (induction i q w rule: control_keyPressEvents.induct)
  case (1 i q w)
  show ?case
  proof (cases "i < length q")
    case False
    with "1.prems"(1) show ?thesis
      by (simp add: control_keyPressEvents.simps [of i q w])
  next
    case True
    note len = this
    have split: "drop i q = q ! i # drop (Suc i) q"
      using len by (simp add: Cons_nth_drop_Suc)
    obtain i1 w1 where ev: "control_event (q ! i) i w = Inr (i1, w1)"
      using "1.prems"(1) len
      by (auto simp: control_keyPressEvents.simps [of i q w] split: sum.splits)
    have i1: "i1 = i"
      using control_event_index [OF ev] "1.prems"(2) split by simp
    have t: "take i (array_splice i 1 q) = take i q"
      using len by (simp add: array_splice_def)
    have d: "drop i (array_splice i 1 q) = drop (Suc i) q"
      using len by (simp add: array_splice_def)
    have rest: "control_keyPressEvents i (array_splice i 1 q) w1 = Inr (q', w')"
      using "1.prems"(1) len ev i1
      by (simp add: control_keyPressEvents.simps [of i q w])
    have "q' = take i (array_splice i 1 q)"
    proof (rule "1.IH" [OF len ev [unfolded i1] refl])
      show "control_keyPressEvents i (array_splice i 1 q) w1 = Inr (q', w')"
        using rest by simp
      show "\<forall>ev\<in>set (drop i (array_splice i 1 q)).
         getChar ev \<noteq> Some (of_char CHR ''0'') \<and> getChar ev \<noteq> Some (of_char CHR ''h'')"
        using "1.prems"(2) split d by simp
    qed
    with t show ?thesis by simp
  qed
qed

text \<open>
  Claim C1. The claim is that one invocation of control empties the queue and applies the
  effect of each queued event exactly once. The loops of the events '0' and 'h' (lines 669
  and 679) count in the variable \<open>i\<close> of the event loop, so the splice of line 687
  removes the event at the index they leave, which is the number of spacecrafts. With one
  spacecraft and the queue '0', 'l': the event '0' empties the goals, the splice removes
  the event 'l' unhandled, and the loop ends with the event '0' still queued; the light
  keeps turning as before.
\<close>

theorem control_leaves_event_queued:
  "map_sum id (\<lambda>(events, w). (events, lightTurn w, map controller (spacecrafts w)))
     (control (\<lambda>c. c) (\<lambda>k. False) [keyPress CHR ''0'', keyPress CHR ''l''] exampleWorld) =
   Inr ([keyPress CHR ''0''], False, [AIController []])"
proof -
  let ?w = "control_camera (\<lambda>k. False) exampleWorld"
  have ev: "control_event (keyPress CHR ''0'') 0 ?w = Inr (1, control_stopAll ?w)"
    by (simp add: control_event_def getChar_keyPress control_camera_frame exampleWorld_def)
  have sp: "array_splice (Suc 0) (Suc 0) [keyPress CHR ''0'', keyPress CHR ''l''] =
      [keyPress CHR ''0'']"
    by (simp add: array_splice_def)
  have loop: "control_keyPressEvents 0 [keyPress CHR ''0'', keyPress CHR ''l''] ?w =
      Inr ([keyPress CHR ''0''], control_stopAll ?w)"
    by (simp add: control_keyPressEvents.simps [of 0]
        control_keyPressEvents.simps [of "Suc 0"] ev sp)
  show ?thesis
    by (simp add: control_result loop control_stopAll_def control_camera_frame)
       (simp add: exampleWorld_def exampleCraft_def stopped_def)
qed

text \<open>
  The event 'c' from an index that is not negative stays inside a camera list that is not
  empty, and the scene's camera follows the camera at the new index.
\<close>

lemma control_nextCamera_in_bounds:
  assumes "activeCameraIndex w = Idx k" and "0 \<le> k" and "cameras w \<noteq> []"
  shows "\<exists>j. activeCameraIndex (control_nextCamera w) = Idx (int j) \<and>
             j < length (cameras w) \<and>
             followedCamera (activeCamera (control_nextCamera w)) = Some j \<and>
             int j = (k + 1) mod int (length (cameras w))"
proof -
  let ?n = "int (length (cameras w))"
  have n: "0 < ?n" using assms(3) by simp
  have r: "js_rem (k + 1) ?n = Idx ((k + 1) mod ?n)"
    using assms(2) n by (simp add: js_rem_def)
  have b: "0 \<le> (k + 1) mod ?n" "(k + 1) mod ?n < ?n"
    using n by simp_all
  show ?thesis
    using b
    by (intro exI [of _ "nat ((k + 1) mod ?n)"])
       (simp add: control_nextCamera_def assms(1) r cameraAt_def followCamera_def Let_def)
qed

text \<open>
  Claim C2. The claim is that the events 'c' and 'x' leave activeCameraIndex inside the
  camera list, an 'x' at index 0 going to the last camera. Line 649 takes
  \<open>(activeCameraIndex - 1) % length\<close>, and JavaScript's remainder of -1 is -1. With
  three cameras and the index 0, the event 'x' leaves the index at -1, and the scene's
  camera follows \<open>cameras[-1]\<close>, which is undefined.
\<close>

theorem control_previousCamera_out_of_bounds:
  "map_sum id (\<lambda>(events, w). (events, activeCameraIndex w, followedCamera (activeCamera w)))
     (control (\<lambda>c. c) (\<lambda>k. False) [keyPress CHR ''x''] exampleWorld) =
   Inr ([], Idx (- 1), None)"
proof -
  let ?w = "control_camera (\<lambda>k. False) exampleWorld"
  have w: "activeCameraIndex exampleWorld = Idx 0" "length (cameras exampleWorld) = 3"
    by (simp_all add: exampleWorld_def)
  have ix: "activeCameraIndex (control_previousCamera ?w) = Idx (- 1)"
    by (simp add: control_previousCamera_def control_camera_frame js_rem_def Let_def w)
  have ev: "control_event (keyPress CHR ''x'') 0 ?w = Inr (0, control_previousCamera ?w)"
    by (simp add: control_event_def getChar_keyPress control_targetCraft_def ix)
  have sp: "array_splice 0 (Suc 0) [keyPress CHR ''x''] = []"
    by (simp add: array_splice_def)
  have loop: "control_keyPressEvents 0 [keyPress CHR ''x''] ?w =
      Inr ([], control_previousCamera ?w)"
    by (simp add: control_keyPressEvents.simps [of 0] ev sp)
  show ?thesis
    by (simp add: control_result loop ix)
       (simp add: control_previousCamera_def control_camera_frame js_rem_def cameraAt_def
          followCamera_def Let_def w)
qed

end
